theory Spec2Isabelle
  imports Complex_Main "HOL-Library.Monad_Syntax" "HOL-Library.List_Lexorder"
begin

section \<open>Numbers and arrays\<close>

text \<open>
  The exporter computes on numpy arrays of IEEE floats. The embedding takes the
  components as real numbers: every arithmetic step below is the exact operation that
  the float operation rounds. A one-dimensional array is a list, a two-dimensional one
  a list of rows.
\<close>

definition linalg_norm :: "real list \<Rightarrow> real" where
  \<comment> \<open>\<open>numpy.linalg.norm\<close> of a one-dimensional array.\<close>
  "linalg_norm v = sqrt (sum_list (map (\<lambda>x. x * x) v))"

definition unit_vector :: "real list \<Rightarrow> real list" where
  \<comment> \<open>\<open>export_ops.unit_vector\<close> on a one-dimensional array: \<open>a\<close> is the norm (kept as a
     one-element axis), and \<open>numpy.divide(vector, a, out=zeros_like(vector), where=a != 0)\<close>
     divides where \<open>a \<noteq> 0\<close> and leaves the zero of \<open>out\<close> elsewhere.\<close>
  "unit_vector v = (let a = linalg_norm v in map (\<lambda>x. if a \<noteq> 0 then x / a else 0) v)"

definition unit_vector_rows :: "real list list \<Rightarrow> real list list" where
  \<comment> \<open>\<open>export_ops.unit_vector\<close> on a two-dimensional array: the norm is taken along the
     last axis, so each row is divided by its own norm.\<close>
  "unit_vector_rows m = map unit_vector m"

definition np_round :: "real \<Rightarrow> int" where
  \<comment> \<open>\<open>numpy.round\<close> to an integer: the nearest one, a tie going to the even neighbour.\<close>
  "np_round x = (let f = \<lfloor>x\<rfloor>; d = x - of_int f in
     if d < 1 / 2 then f else if 1 / 2 < d then f + 1 else if even f then f else f + 1)"

definition astype_uint :: "nat \<Rightarrow> int \<Rightarrow> int" where
  \<comment> \<open>\<open>astype(numpy.uint8)\<close>, \<open>astype(numpy.uint16)\<close>: the low \<open>w\<close> bits, read unsigned.\<close>
  "astype_uint w n = n mod 2 ^ w"

definition astype_int :: "nat \<Rightarrow> int \<Rightarrow> int" where
  \<comment> \<open>\<open>astype(numpy.int8)\<close>, \<open>astype(numpy.int16)\<close>: the low \<open>w\<close> bits, read in two's
     complement.\<close>
  "astype_int w n = (n + 2 ^ (w - 1)) mod 2 ^ w - 2 ^ (w - 1)"

datatype ndarray = Floats "real list list" | Ints "int list list"

fun as_floats :: "ndarray \<Rightarrow> real list list" where
  "as_floats (Floats m) = m"
| "as_floats (Ints m) = map (map of_int) m"

section \<open>Formats and the integer quantization of normalized values\<close>

text \<open>
  The format of an element, as the chain of regular expressions in
  \<open>blender_to_migoto_vertices\<close> classifies it (\<open>f32_pattern\<close>, \<open>f16_pattern\<close>, ...,
  \<open>snorm8_pattern\<close>); \<open>UNSUPPORTED\<close> is a format none of them matches.
\<close>

datatype DXGIFormat =
  FLOAT32 | FLOAT16 | UINT32 | UINT16 | UINT8 | SINT32 | SINT16 | SINT8
  | UNORM16 | UNORM8 | SNORM16 | SNORM8 | UNSUPPORTED

definition round_scaled :: "int \<Rightarrow> (int \<Rightarrow> int) \<Rightarrow> ndarray \<Rightarrow> ndarray" where
  \<comment> \<open>\<open>numpy.round(result * m).astype(t)\<close>\<close>
  "round_scaled m t result = Ints (map (map (\<lambda>x. t (np_round (x * of_int m)))) (as_floats result))"

definition quantize :: "DXGIFormat \<Rightarrow> ndarray \<Rightarrow> ndarray" where
  \<comment> \<open>Lines 1366 to 1373 of \<open>blender_to_migoto_vertices\<close>.\<close>
  "quantize fmt result =
     (if fmt = UNORM16 then round_scaled 65535 (astype_uint 16) result
      else if fmt = UNORM8 then round_scaled 255 (astype_uint 8) result
      else if fmt = SNORM16 then round_scaled 32767 (astype_int 16) result
      else if fmt = SNORM8 then round_scaled 127 (astype_int 8) result
      else result)"

text \<open>The largest integer of a normalized format, and the range of its integer type.\<close>

fun norm_max :: "DXGIFormat \<Rightarrow> int" where
  "norm_max UNORM16 = 65535"
| "norm_max UNORM8 = 255"
| "norm_max SNORM16 = 32767"
| "norm_max SNORM8 = 127"
| "norm_max _ = 0"

fun type_min :: "DXGIFormat \<Rightarrow> int" where
  "type_min SNORM16 = - 32768"
| "type_min SNORM8 = - 128"
| "type_min _ = 0"

definition is_norm :: "DXGIFormat \<Rightarrow> bool" where
  "is_norm fmt = (fmt = UNORM16 \<or> fmt = UNORM8 \<or> fmt = SNORM16 \<or> fmt = SNORM8)"

text \<open>
  The encoding as the specification words it: the product rounded half away from zero,
  then clamped to the range of the format (\<open>[0, max]\<close> unsigned, \<open>[-max, max]\<close> signed).
\<close>

definition round_half_away :: "real \<Rightarrow> int" where
  "round_half_away x = (if 0 \<le> x then \<lfloor>x + 1 / 2\<rfloor> else - \<lfloor>- x + 1 / 2\<rfloor>)"

definition spec_norm_encode :: "DXGIFormat \<Rightarrow> real \<Rightarrow> int" where
  "spec_norm_encode fmt x =
     (let lo = (if fmt = SNORM16 \<or> fmt = SNORM8 then - norm_max fmt else 0)
      in max lo (min (norm_max fmt) (round_half_away (x * of_int (norm_max fmt)))))"

definition norm_cast :: "DXGIFormat \<Rightarrow> int \<Rightarrow> int" where
  \<comment> \<open>The \<open>astype\<close> that \<open>quantize\<close> applies for a normalized format.\<close>
  "norm_cast fmt = (if fmt = UNORM16 then astype_uint 16 else if fmt = UNORM8 then astype_uint 8
     else if fmt = SNORM16 then astype_int 16 else astype_int 8)"

section \<open>Python dictionaries and sets\<close>

definition dict_get :: "('k \<times> 'v) list \<Rightarrow> 'k \<Rightarrow> 'v option" where
  "dict_get d k = map_of d k"

definition dict_keys :: "('k \<times> 'v) list \<Rightarrow> 'k list" where
  "dict_keys d = map fst d"

definition setdefault :: "('k \<times> 'v) list \<Rightarrow> 'k \<Rightarrow> 'v \<Rightarrow> ('k \<times> 'v) list" where
  "setdefault d k v = (if k \<in> set (dict_keys d) then d else d @ [(k, v)])"

definition dict_modify :: "('k \<times> 'v) list \<Rightarrow> 'k \<Rightarrow> ('v \<Rightarrow> 'v) \<Rightarrow> ('k \<times> 'v) list" where
  "dict_modify d k f = map (\<lambda>(k', v). if k' = k then (k', f v) else (k', v)) d"

definition set_add :: "'a list \<Rightarrow> 'a \<Rightarrow> 'a list" where
  "set_add s x = (if x \<in> set s then s else s @ [x])"

definition set_update :: "'a list \<Rightarrow> 'a list \<Rightarrow> 'a list" where
  "set_update s xs = fold (\<lambda>x s. set_add s x) xs s"

definition dict_extend :: "('k \<times> 'v list) list \<Rightarrow> 'k \<Rightarrow> 'v list \<Rightarrow> ('k \<times> 'v list) list" where
  \<comment> \<open>\<open>d.setdefault(k, []).extend(xs)\<close>\<close>
  "dict_extend d k xs = dict_modify (setdefault d k []) k (\<lambda>l. l @ xs)"

definition dict_set_update :: "('k \<times> 'v list) list \<Rightarrow> 'k \<Rightarrow> 'v list \<Rightarrow> ('k \<times> 'v list) list" where
  \<comment> \<open>\<open>d.setdefault(k, set()).update(xs)\<close>\<close>
  "dict_set_update d k xs = dict_modify (setdefault d k []) k (\<lambda>s. set_update s xs)"

fun foldM :: "('a \<Rightarrow> 's \<Rightarrow> 's option) \<Rightarrow> 'a list \<Rightarrow> 's \<Rightarrow> 's option" where
  "foldM f [] s = Some s"
| "foldM f (x # xs) s = (case f x s of None \<Rightarrow> None | Some s' \<Rightarrow> foldM f xs s')"

section \<open>Mesh\<close>

type_synonym vec3 = "real \<times> real \<times> real"

definition vec_list :: "vec3 \<Rightarrow> real list" where
  "vec_list v = (case v of (x, y, z) \<Rightarrow> [x, y, z])"

definition vsub :: "vec3 \<Rightarrow> vec3 \<Rightarrow> vec3" where
  "vsub a b = (case a of (a1, a2, a3) \<Rightarrow> case b of (b1, b2, b3) \<Rightarrow> (a1 - b1, a2 - b2, a3 - b3))"

definition vadd :: "vec3 \<Rightarrow> vec3 \<Rightarrow> vec3" where
  "vadd a b = (case a of (a1, a2, a3) \<Rightarrow> case b of (b1, b2, b3) \<Rightarrow> (a1 + b1, a2 + b2, a3 + b3))"

definition vscale :: "real \<Rightarrow> vec3 \<Rightarrow> vec3" where
  "vscale c a = (case a of (a1, a2, a3) \<Rightarrow> (c * a1, c * a2, c * a3))"

definition vdot :: "vec3 \<Rightarrow> vec3 \<Rightarrow> real" where
  "vdot a b = (case a of (a1, a2, a3) \<Rightarrow> case b of (b1, b2, b3) \<Rightarrow> a1 * b1 + a2 * b2 + a3 * b3)"

definition dot :: "real list \<Rightarrow> real list \<Rightarrow> real" where
  "dot a b = sum_list (map2 (*) a b)"

record MeshPolygon =
  poly_vertices :: "nat list"
  poly_normal :: vec3

record MeshLoop =
  vertex_index :: nat
  loop_normal :: vec3
  loop_tangent :: vec3
  bitangent_sign :: real

record Mesh =
  vertices :: "vec3 list"
  loops :: "MeshLoop list"
  polygons :: "MeshPolygon list"

record OutlineProperties =
  outline_optimization :: bool
  toggle_rounding_outline :: bool
  decimal_rounding_outline :: int
  angle_weighted :: bool
  overlapping_faces :: bool
  detect_edges :: bool
  calculate_all_faces :: bool
  nearest_edge_distance :: real

section \<open>Outline optimizer\<close>

definition pow10 :: "int \<Rightarrow> real" where
  "pow10 n = (if 0 \<le> n then 10 ^ nat n else 1 / 10 ^ nat (- n))"

definition py_round :: "real \<Rightarrow> int \<Rightarrow> real" where
  "py_round x n = of_int (np_round (x * pow10 n)) / pow10 n"

definition int_trunc :: "real \<Rightarrow> int" where
  "int_trunc x = (if 0 \<le> x then \<lfloor>x\<rfloor> else \<lceil>x\<rceil>)"

definition precision :: "real \<Rightarrow> int option" where
  "precision x = (if 0 < x then Some (- \<lfloor>log 10 x\<rfloor>) else None)"

definition round_coords :: "vec3 \<Rightarrow> int \<Rightarrow> vec3" where
  "round_coords p n = (case p of (x, y, z) \<Rightarrow> (py_round x n, py_round y n, py_round z n))"

record OutlineData =
  Face_Verts :: "(nat \<times> nat list) list"
  Face_Normals :: "(nat \<times> vec3) list"
  Connected_Faces :: "(nat \<times> nat list) list"
  searched_vertex_pos :: "nat list"
  Pos_Same_Vertices :: "(vec3 \<times> nat list) list"
  Pos_Close_Vertices :: "(vec3 \<times> nat list) list"
  Numpy_Position :: "(nat \<times> vec3) list"

definition empty_data :: OutlineData where
  "empty_data = \<lparr>Face_Verts = [], Face_Normals = [], Connected_Faces = [], searched_vertex_pos = [],
     Pos_Same_Vertices = [], Pos_Close_Vertices = [], Numpy_Position = []\<rparr>"

definition dict_set_add :: "('k \<times> 'v list) list \<Rightarrow> 'k \<Rightarrow> 'v \<Rightarrow> ('k \<times> 'v list) list" where
  \<comment> \<open>\<open>d.setdefault(k, {x}).add(x)\<close>\<close>
  "dict_set_add d k x = dict_modify (setdefault d k [x]) k (\<lambda>s. set_add s x)"

definition visit_vertex ::
  "OutlineProperties \<Rightarrow> int \<Rightarrow> vec3 list \<Rightarrow> nat \<Rightarrow> nat \<Rightarrow> OutlineData \<Rightarrow> OutlineData option" where
  "visit_vertex props i_nedd verts_obj i_poly vert d0 =
    (let d1 = d0\<lparr>Connected_Faces := dict_extend (Connected_Faces d0) vert [i_poly]\<rparr> in
     if vert \<in> set (searched_vertex_pos d1) then Some d1
     else if length verts_obj \<le> vert then None
     else
       let d2 = d1\<lparr>searched_vertex_pos := set_add (searched_vertex_pos d1) vert\<rparr>;
           vert_position = verts_obj ! vert;
           d3 = (if toggle_rounding_outline props then
                   (let d = d2\<lparr>Pos_Same_Vertices := dict_set_add (Pos_Same_Vertices d2)
                             (round_coords vert_position (decimal_rounding_outline props)) vert\<rparr>
                    in if detect_edges props
                       then d\<lparr>Pos_Close_Vertices := dict_set_add (Pos_Close_Vertices d)
                             (round_coords vert_position i_nedd) vert\<rparr>
                       else d)
                 else d2\<lparr>Pos_Same_Vertices := dict_set_add (Pos_Same_Vertices d2) vert_position vert\<rparr>)
       in Some (if angle_weighted props
                then d3\<lparr>Numpy_Position := setdefault (Numpy_Position d3) vert vert_position\<rparr>
                else d3))"

definition visit_polygon ::
  "OutlineProperties \<Rightarrow> int \<Rightarrow> vec3 list \<Rightarrow> nat \<times> MeshPolygon \<Rightarrow> OutlineData \<Rightarrow> OutlineData option" where
  "visit_polygon props i_nedd verts_obj ip d =
    (case ip of (i_poly, poly) \<Rightarrow>
       foldM (visit_vertex props i_nedd verts_obj i_poly) (poly_vertices poly)
         (d\<lparr>Face_Verts := setdefault (Face_Verts d) i_poly (poly_vertices poly),
            Face_Normals := setdefault (Face_Normals d) i_poly (poly_normal poly)\<rparr>))"

definition pre_dictionary :: "Mesh \<Rightarrow> OutlineProperties \<Rightarrow> int \<Rightarrow> OutlineData option" where
  "pre_dictionary mesh props i_nedd =
     foldM (visit_polygon props i_nedd (vertices mesh))
       (zip [0..<length (polygons mesh)] (polygons mesh)) empty_data"

definition build_same_vertex :: "('p \<times> nat list) list \<Rightarrow> (nat \<times> nat list) list" where
  "build_same_vertex psv =
     fold (\<lambda>vals sv. fold (\<lambda>vertex sv. setdefault sv vertex vals) vals sv) (map snd psv) []"


subsection \<open>Enclosure test\<close>

definition connection_count :: "nat list \<Rightarrow> (nat \<times> nat list) list \<Rightarrow> nat" where
  \<comment> \<open>\<open>len(connectedpointentry & Over2_connected_points.keys())\<close>\<close>
  "connection_count c d = length (filter (\<lambda>x. x \<in> set (dict_keys d)) (remdups c))"

definition dict_pop :: "('k \<times> 'v) list \<Rightarrow> 'k \<Rightarrow> ('k \<times> 'v) list" where
  "dict_pop d k = filter (\<lambda>kv. fst kv \<noteq> k) d"

function recursive_connections :: "(nat \<times> nat list) list \<Rightarrow> bool" where
  "recursive_connections d =
     (case find (\<lambda>kv. connection_count (snd kv) d < 2) d of
        None \<Rightarrow> True
      | Some kv \<Rightarrow>
          if length (dict_pop d (fst kv)) < 3 then False
          else recursive_connections (dict_pop d (fst kv)))"
  by pat_completeness auto
termination
proof (relation "measure length")
  show "wf (measure length)" by simp
next
  fix d :: "(nat \<times> nat list) list" and kv
  assume f: "find (\<lambda>kv. connection_count (snd kv) d < 2) d = Some kv"
  then have "kv \<in> set d"
    by (auto simp: find_Some_iff)
  then have "length (filter (\<lambda>e. fst e \<noteq> fst kv) d) < length d"
    by (intro length_filter_less [of kv]) auto
  then show "(dict_pop d (fst kv), d) \<in> measure length"
    by (simp add: dict_pop_def)
qed

definition main_connected_points :: "nat list list \<Rightarrow> nat list \<Rightarrow> (nat \<times> nat list) list" where
  "main_connected_points ConnectedFaces vg_set =
     fold (\<lambda>face m.
        let non_vg_points = filter (\<lambda>p. p \<notin> set vg_set) face in
        if 1 < length non_vg_points
        then fold (\<lambda>point m. dict_extend m point (filter (\<lambda>x. x \<noteq> point) non_vg_points))
               non_vg_points m
        else m) ConnectedFaces []"

definition new_main_connect ::
  "(nat \<times> nat list) list \<Rightarrow> (nat \<times> nat list) list \<Rightarrow> (nat \<times> nat list) list option" where
  "new_main_connect Main_connected_points Same_Vertex =
     foldM (\<lambda>ev nm. case ev of (entry, vals) \<Rightarrow>
        foldM (\<lambda>val nm.
           case dict_get Same_Vertex val of
             None \<Rightarrow> None
           | Some sv \<Rightarrow>
               let ivspv = filter (\<lambda>x. x \<noteq> val) sv;
                   intersect_sidevertex = filter (\<lambda>x. x \<in> set (dict_keys Main_connected_points)) ivspv
               in Some (if intersect_sidevertex \<noteq> [] then dict_extend nm entry intersect_sidevertex
                        else nm)) vals nm)
       Main_connected_points []"

definition add_reverse_connections ::
  "(nat \<times> nat list) list \<Rightarrow> (nat \<times> nat list) list \<Rightarrow> (nat \<times> nat list) list" where
  "add_reverse_connections Main_connected_points New_Main_connect =
     fold (\<lambda>kv m. case kv of (key, vals) \<Rightarrow>
        fold (\<lambda>val m. dict_modify m val (\<lambda>l. l @ [key])) vals
          (dict_modify m key (\<lambda>l. l @ vals)))
       New_Main_connect Main_connected_points"

definition over2_connected_points :: "(nat \<times> nat list) list \<Rightarrow> (nat \<times> nat list) list" where
  \<comment> \<open>\<open>{k: set(v) for k, v in Main_connected_points.items() if len(v) > 1}\<close>\<close>
  "over2_connected_points Main_connected_points =
     map (\<lambda>kv. (fst kv, remdups (snd kv))) (filter (\<lambda>kv. 1 < length (snd kv)) Main_connected_points)"

definition checkEnclosedFacesVertex ::
  "nat list list \<Rightarrow> nat list \<Rightarrow> (nat \<times> nat list) list \<Rightarrow> bool option" where
  "checkEnclosedFacesVertex ConnectedFaces vg_set Same_Vertex =
     (case new_main_connect (main_connected_points ConnectedFaces vg_set) Same_Vertex of
        None \<Rightarrow> None
      | Some New_Main_connect \<Rightarrow>
          Some (recursive_connections (over2_connected_points
                  (add_reverse_connections (main_connected_points ConnectedFaces vg_set)
                     New_Main_connect))))"

subsection \<open>Edge detection\<close>

definition axis_coords :: "real \<Rightarrow> real \<Rightarrow> int \<Rightarrow> real list" where
  "axis_coords p ned i_nedd =
     (let z = py_round (p + ned) i_nedd;
          n = py_round (p - ned) i_nedd;
          i_nedd_increment = pow10 (- i_nedd);
          zndifference = int_trunc ((z - n) / i_nedd_increment)
      in [z, n] @ (if 1 < zndifference
                   then map (\<lambda>r. z - of_nat r * i_nedd_increment) [0..<nat (zndifference - 1)]
                   else []))"

definition closest_group_search :: "(vec3 \<times> nat list) list \<Rightarrow> real list \<Rightarrow> real list \<Rightarrow> real list \<Rightarrow> nat list" where
  "closest_group_search pcv c0 c1 c2 =
     fold (\<lambda>k s. case dict_get pcv k of None \<Rightarrow> s | Some g \<Rightarrow> set_update s g)
       (concat (map (\<lambda>pos1. concat (map (\<lambda>pos2. map (\<lambda>pos3. (pos1, pos2, pos3)) c2) c1)) c0)) []"

definition in_box :: "vec3 \<Rightarrow> real \<Rightarrow> vec3 \<Rightarrow> bool" where
  "in_box p ned q =
     (case p of (p1, p2, p3) \<Rightarrow> case q of (o1, o2, o3) \<Rightarrow>
        o1 \<le> p1 + ned \<and> p1 - ned \<le> o1 \<and> o2 \<le> p2 + ned \<and> p2 - ned \<le> o2
        \<and> o3 \<le> p3 + ned \<and> p3 - ned \<le> o3)"

definition group_connected_faces :: "OutlineData \<Rightarrow> nat list \<Rightarrow> nat list list option" where
  "group_connected_faces d vertex_group =
     (case those (map (dict_get (Connected_Faces d)) vertex_group) of
        None \<Rightarrow> None
      | Some fs \<Rightarrow> those (map (dict_get (Face_Verts d)) (concat fs)))"

definition group_enclosed :: "OutlineData \<Rightarrow> (nat \<times> nat list) list \<Rightarrow> nat list \<Rightarrow> bool option" where
  "group_enclosed d Same_Vertex vertex_group =
     (case group_connected_faces d vertex_group of
        None \<Rightarrow> None
      | Some ConnectedFaces \<Rightarrow> checkEnclosedFacesVertex ConnectedFaces vertex_group Same_Vertex)"

definition group_closest :: "OutlineData \<Rightarrow> real \<Rightarrow> int \<Rightarrow> vec3 \<Rightarrow> nat list" where
  "group_closest d ned i_nedd p =
     (case p of (p1, p2, p3) \<Rightarrow>
        closest_group_search (Pos_Close_Vertices d)
          (axis_coords p1 ned i_nedd) (axis_coords p2 ned i_nedd) (axis_coords p3 ned i_nedd))"

definition same_vertex_add :: "(nat \<times> nat list) list \<Rightarrow> nat \<Rightarrow> nat \<Rightarrow> (nat \<times> nat list) list option" where
  \<comment> \<open>\<open>Same_Vertex.get(x).add(v)\<close>\<close>
  "same_vertex_add sv x v =
     (case dict_get sv x of None \<Rightarrow> None | Some s \<Rightarrow> Some (dict_modify sv x (\<lambda>s. set_add s v)))"

definition merge_closest ::
  "vec3 list \<Rightarrow> real \<Rightarrow> vec3 \<Rightarrow> nat list \<Rightarrow> nat \<Rightarrow> (nat \<times> nat list) list \<Rightarrow> (nat \<times> nat list) list option" where
  "merge_closest verts_obj ned p vertex_group v_closest_pos sv =
     (if v_closest_pos \<in> set vertex_group then Some sv
      else if length verts_obj \<le> v_closest_pos then None
      else if in_box p ned (verts_obj ! v_closest_pos)
           then foldM (\<lambda>x sv. same_vertex_add sv x v_closest_pos) vertex_group sv
           else Some sv)"

definition edge_detection_group ::
  "vec3 list \<Rightarrow> real \<Rightarrow> int \<Rightarrow> OutlineData \<Rightarrow> nat list
   \<Rightarrow> (nat \<times> nat list) list \<times> nat list \<Rightarrow> ((nat \<times> nat list) list \<times> nat list) option" where
  "edge_detection_group verts_obj ned i_nedd d vertex_group st =
     (case st of (Same_Vertex, RepositionLocal) \<Rightarrow>
      case group_enclosed d Same_Vertex vertex_group of
        None \<Rightarrow> None
      | Some True \<Rightarrow> Some st
      | Some False \<Rightarrow>
         (case vertex_group of
            [] \<Rightarrow> None
          | vertex # _ \<Rightarrow>
              if length verts_obj \<le> vertex then None
              else
                let p = verts_obj ! vertex;
                    closest_group = group_closest d ned i_nedd p
                in if length closest_group \<noteq> 1
                   then (case foldM (merge_closest verts_obj ned p vertex_group) closest_group Same_Vertex of
                           None \<Rightarrow> None
                         | Some sv \<Rightarrow> Some (sv, set_update RepositionLocal vertex_group))
                   else Some st))"

subsection \<open>Normal accumulation\<close>

definition connected_faces_by_same_vertex ::
  "(nat \<times> nat list) list \<Rightarrow> (nat \<times> nat list) list \<Rightarrow> (nat \<times> nat list) list option" where
  "connected_faces_by_same_vertex Same_Vertex cf =
     foldM (\<lambda>kv c. case kv of (key, vals) \<Rightarrow>
        foldM (\<lambda>vertex c. case dict_get cf vertex of
                 None \<Rightarrow> None
               | Some fs \<Rightarrow> Some (dict_set_update c key fs)) vals c)
       Same_Vertex []"

definition antiparallel_search :: "vec3 list \<Rightarrow> bool" where
  "antiparallel_search ConnectedFaceNormals =
     list_ex (\<lambda>a. list_ex (\<lambda>b. - 1000001 / 1000000 < vdot a b \<and> vdot a b < - 999999 / 1000000)
        ConnectedFaceNormals) ConnectedFaceNormals"

definition numpy_multiply :: "vec3 \<Rightarrow> real \<Rightarrow> vec3" where
  "numpy_multiply v c = vscale c v"

definition weighted_normal_row :: "vec3 \<Rightarrow> nat \<Rightarrow> vec3" where
  "weighted_normal_row facenormal influence_restriction =
     (let row = facenormal;
          discarded = (if 1 < influence_restriction
                       then numpy_multiply row ((1 / 2) powi (1 - int influence_restriction))
                       else row)
      in row)"

definition edge_vectors :: "(nat \<times> vec3) list \<Rightarrow> nat list \<Rightarrow> nat \<Rightarrow> (vec3 \<times> vec3) option" where
  "edge_vectors np vlist vert0 =
     (case dict_get np vert0 of
        None \<Rightarrow> None
      | Some v0 \<Rightarrow>
         (case map (dict_get np) (filter (\<lambda>x. x \<noteq> vert0) vlist) of
            Some a # Some b # _ \<Rightarrow> Some (vsub a v0, vsub b v0)
          | _ \<Rightarrow> None))"

definition face_angle :: "(nat \<times> vec3) list \<Rightarrow> nat list \<Rightarrow> nat list \<Rightarrow> real option" where
  "face_angle np vlist vert0p =
     (case those (map (edge_vectors np vlist) vert0p) of
        None \<Rightarrow> None
      | Some [] \<Rightarrow> None
      | Some evs \<Rightarrow>
          (case last evs of (e0, e1) \<Rightarrow>
             Some (arccos (max (- 1) (min 1
               (dot (unit_vector (vec_list e0)) (unit_vector (vec_list e1))))))))"

definition face_contribution :: "OutlineProperties \<Rightarrow> OutlineData \<Rightarrow> nat list \<Rightarrow> nat \<Rightarrow> vec3 option" where
  "face_contribution props d vertex_group facei =
     (case dict_get (Face_Verts d) facei of
        None \<Rightarrow> None
      | Some vlist \<Rightarrow>
         (case dict_get (Face_Normals d) facei of
            None \<Rightarrow> None
          | Some facenormal \<Rightarrow>
              let vert0p = filter (\<lambda>v. v \<in> set vertex_group) (remdups vlist);
                  row = weighted_normal_row facenormal (length vert0p)
              in if angle_weighted props
                 then (case face_angle (Numpy_Position d) vlist vert0p of
                         None \<Rightarrow> None
                       | Some angle \<Rightarrow> Some (vscale angle row))
                 else Some row))"

definition group_normal_sum :: "OutlineProperties \<Rightarrow> OutlineData \<Rightarrow> nat list \<Rightarrow> nat list \<Rightarrow> vec3 option" where
  "group_normal_sum props d vertex_group faces =
     (case those (map (face_contribution props d vertex_group) faces) of
        None \<Rightarrow> None
      | Some ConnectedWeightedNormal \<Rightarrow> Some (fold (\<lambda>r s. vadd s r) ConnectedWeightedNormal (0, 0, 0)))"

definition store_group ::
  "nat list \<Rightarrow> nat \<Rightarrow> nat list \<Rightarrow> real list \<Rightarrow> (nat \<times> real list) list \<times> nat list
   \<Rightarrow> (nat \<times> real list) list \<times> nat list" where
  "store_group RepositionLocal key vertex_group wSum st =
     (if wSum \<noteq> [0, 0, 0]
      then if RepositionLocal \<noteq> [] \<and> key \<in> set RepositionLocal
           then (setdefault (fst st) key wSum, snd st)
           else fold (\<lambda>vertexf st. (setdefault (fst st) vertexf wSum, set_add (snd st) vertexf))
                  vertex_group st
      else st)"

definition calculation_step ::
  "OutlineProperties \<Rightarrow> OutlineData \<Rightarrow> (nat \<times> nat list) list \<Rightarrow> nat list \<Rightarrow> nat \<times> nat list
   \<Rightarrow> (nat \<times> real list) list \<times> nat list \<Rightarrow> ((nat \<times> real list) list \<times> nat list) option" where
  "calculation_step props d cfbsv RepositionLocal kv st =
     (case kv of (key, vertex_group) \<Rightarrow>
        if key \<in> set (snd st) then Some st
        else if \<not> calculate_all_faces props \<and> length vertex_group = 1 then Some st
        else
          (case dict_get cfbsv key of
             None \<Rightarrow> None
           | Some FacesConnectedbySameVertex \<Rightarrow>
              (case (if overlapping_faces props
                     then those (map (dict_get (Face_Normals d)) FacesConnectedbySameVertex)
                     else Some []) of
                 None \<Rightarrow> None
               | Some ConnectedFaceNormals \<Rightarrow>
                   if overlapping_faces props \<and> antiparallel_search ConnectedFaceNormals then Some st
                   else
                     (case group_normal_sum props d vertex_group FacesConnectedbySameVertex of
                        None \<Rightarrow> None
                      | Some s \<Rightarrow>
                          Some (store_group RepositionLocal key vertex_group
                                  (unit_vector (vec_list s)) st)))))"

definition optimized_outline_generation :: "Mesh \<Rightarrow> OutlineProperties \<Rightarrow> (nat \<times> real list) list option" where
  "optimized_outline_generation mesh props =
     (let edges = (detect_edges props \<and> toggle_rounding_outline props);
          ned = nearest_edge_distance props in
      case (if edges
            then map_option (\<lambda>p. min p (decimal_rounding_outline props) - 1) (precision ned)
            else Some 0) of
        None \<Rightarrow> None
      | Some i_nedd \<Rightarrow>
         (case pre_dictionary mesh props i_nedd of
            None \<Rightarrow> None
          | Some d \<Rightarrow>
             if Pos_Same_Vertices d = [] then None
             else
              (case (if edges
                     then foldM (edge_detection_group (vertices mesh) ned i_nedd d)
                            (map snd (Pos_Same_Vertices d))
                            (build_same_vertex (Pos_Same_Vertices d), [])
                     else Some (build_same_vertex (Pos_Same_Vertices d), [])) of
                 None \<Rightarrow> None
               | Some (Same_Vertex, RepositionLocal) \<Rightarrow>
                  (case connected_faces_by_same_vertex Same_Vertex (Connected_Faces d) of
                     None \<Rightarrow> None
                   | Some cfbsv \<Rightarrow>
                       map_option fst
                         (foldM (calculation_step props d cfbsv RepositionLocal) Same_Vertex ([], []))))))"


section \<open>Auxiliary predicates and example meshes\<close>

definition unit_values :: "(nat \<times> real list) list \<Rightarrow> bool" where
  \<comment> \<open>Every direction stored in an override map has unit length.\<close>
  "unit_values eo = list_all (\<lambda>kv. linalg_norm (snd kv) = 1) eo"

definition triangle :: "nat list \<Rightarrow> vec3 \<Rightarrow> MeshPolygon" where
  "triangle vs n = \<lparr>poly_vertices = vs, poly_normal = n\<rparr>"

definition seam_mesh :: Mesh where
  "seam_mesh = \<lparr>vertices = [(0, 0, 0), (1, 0, 0), (0, 1, 0), (0, 0, 0), (- 1, 0, 0)], loops = [],
      polygons = [triangle [0, 1, 2] (0, 0, 1), triangle [3, 2, 4] (0, 0, 1)]\<rparr>"

definition fold_mesh :: Mesh where
  "fold_mesh = \<lparr>vertices = [(0, 0, 0), (1, 0, 0), (0, 1, 0), (0, 0, 0)], loops = [],
      polygons = [triangle [0, 1, 2] (0, 0, 1), triangle [3, 2, 1] (0, 0, - 1)]\<rparr>"

definition plain_props :: OutlineProperties where
  "plain_props = \<lparr>outline_optimization = True, toggle_rounding_outline = True,
     decimal_rounding_outline = 3, angle_weighted = False, overlapping_faces = False,
     detect_edges = False, calculate_all_faces = False, nearest_edge_distance = 1 / 1000\<rparr>"

definition member_sets :: "(nat \<times> nat list) list \<Rightarrow> nat \<Rightarrow> nat set option" where
  \<comment> \<open>The members of the Same_Vertex set of a vertex, when it has one.\<close>
  "member_sets sv x = map_option set (dict_get sv x)"

definition ridge_mesh :: "vec3 \<Rightarrow> Mesh" where
  "ridge_mesh u = \<lparr>vertices = [(1 / 100, 0, 0), (1, 0, 0), (1, 1, 0), (0, 1, 0), u, (0, 0, 5), (0, 1, 5)],
      loops = [],
      polygons = [triangle [0, 1, 2] (0, 0, 1), triangle [0, 2, 3] (0, 0, 1), triangle [4, 5, 6] (1, 0, 0)]\<rparr>"

definition edge_props :: "real \<Rightarrow> OutlineProperties" where
  "edge_props ned = \<lparr>outline_optimization = True, toggle_rounding_outline = True,
     decimal_rounding_outline = 3, angle_weighted = False, overlapping_faces = False,
     detect_edges = True, calculate_all_faces = False, nearest_edge_distance = ned\<rparr>"

definition ridge_data :: "vec3 \<Rightarrow> (vec3 \<times> nat list) list \<Rightarrow> OutlineData" where
  "ridge_data k4 close =
    \<lparr>Face_Verts = [(0, [0, 1, 2]), (1, [0, 2, 3]), (2, [4, 5, 6])],
     Face_Normals = [(0, 0, 0, 1), (1, 0, 0, 1), (2, 1, 0, 0)],
     Connected_Faces = [(0, [0, 1]), (1, [0]), (2, [0, 1]), (3, [1]), (4, [2]), (5, [2]), (6, [2])],
     searched_vertex_pos = [0, 1, 2, 3, 4, 5, 6],
     Pos_Same_Vertices = [((1 / 100, 0, 0), [0]), ((1, 0, 0), [1]), ((1, 1, 0), [2]),
        ((0, 1, 0), [3]), (k4, [4]), ((0, 0, 5), [5]), ((0, 1, 5), [6])],
     Pos_Close_Vertices = close, Numpy_Position = []\<rparr>"

definition ridge_same_vertex :: "(nat \<times> nat list) list" where
  "ridge_same_vertex = [(0, [0]), (1, [1]), (2, [2]), (3, [3]), (4, [4]), (5, [5]), (6, [6])]"

definition thin_mesh :: Mesh where
  "thin_mesh = \<lparr>vertices = [(0, 0, 0), (1 / 5000, 0, 0), (0, 1, 0), (0, 0, 1)], loops = [],
      polygons = [triangle [0, 1, 2] (0, 0, 1), triangle [0, 3, 2] (- 1, 0, 0)]\<rparr>"

definition far_close :: "(vec3 \<times> nat list) list" where
  "far_close = [((1 / 100, 0, 0), [0]), ((1, 0, 0), [1]), ((1, 1, 0), [2]),
        ((0, 1, 0), [3]), ((1 / 50, 1 / 100, 1 / 100), [4]), ((0, 0, 5), [5]), ((0, 1, 5), [6])]"

definition near_close :: "(vec3 \<times> nat list) list" where
  "near_close = [((1 / 100, 0, 0), [0, 4]), ((1, 0, 0), [1]), ((1, 1, 0), [2]),
        ((0, 1, 0), [3]), ((0, 0, 5), [5]), ((0, 1, 5), [6])]"

definition fold_data :: OutlineData where
  "fold_data =
    \<lparr>Face_Verts = [(0, [0, 1, 2]), (1, [3, 2, 1])],
     Face_Normals = [(0, 0, 0, 1), (1, 0, 0, - 1)],
     Connected_Faces = [(0, [0]), (1, [0, 1]), (2, [0, 1]), (3, [1])],
     searched_vertex_pos = [0, 1, 2, 3],
     Pos_Same_Vertices = [((0, 0, 0), [0, 3]), ((1, 0, 0), [1]), ((0, 1, 0), [2])],
     Pos_Close_Vertices = [], Numpy_Position = []\<rparr>"

definition thin_data :: OutlineData where
  "thin_data =
    \<lparr>Face_Verts = [(0, [0, 1, 2]), (1, [0, 3, 2])],
     Face_Normals = [(0, 0, 0, 1), (1, - 1, 0, 0)],
     Connected_Faces = [(0, [0, 1]), (1, [0]), (2, [0, 1]), (3, [1])],
     searched_vertex_pos = [0, 1, 2, 3],
     Pos_Same_Vertices = [((0, 0, 0), [0, 1]), ((0, 1, 0), [2]), ((0, 0, 1), [3])],
     Pos_Close_Vertices = [], Numpy_Position = []\<rparr>"

definition fold_same_vertex :: "(nat \<times> nat list) list" where
  "fold_same_vertex = [(0, [0, 3]), (3, [0, 3]), (1, [1]), (2, [2])]"


section \<open>Position buffer of the mod exporter\<close>

text \<open>
  One element of the structured position buffer that \<open>ModExporter.optimize_outlines\<close>
  receives. The assignments of the method address the fields POSITION, NORMAL and TANGENT
  and the slice \<open>[:, 0:3]\<close> of the last two, which have three or four components:
  \<open>NORMAL_xyz\<close> and \<open>TANGENT_xyz\<close> are those slices, \<open>NORMAL_rest\<close> and
  \<open>TANGENT_rest\<close> the components after them. Any further field of the buffer is the
  extension of the record.
\<close>

record PositionVertex =
  POSITION :: "real list"
  NORMAL_xyz :: vec3
  NORMAL_rest :: "real list"
  TANGENT_xyz :: vec3
  TANGENT_rest :: "real list"

definition np_round_decimals :: "real \<Rightarrow> nat \<Rightarrow> real" where
  \<comment> \<open>\<open>numpy.round(x, k)\<close>\<close>
  "np_round_decimals x k = of_int (np_round (x * 10 ^ k)) / 10 ^ k"

definition vnorm :: "vec3 \<Rightarrow> real" where
  "vnorm v = linalg_norm (vec_list v)"

definition average_normal :: "real \<Rightarrow> vec3 list \<Rightarrow> vec3 option" where
  \<comment> \<open>Lines 426 to 433 of \<open>optimize_outlines\<close> for the normals of one group; \<open>None\<close> is
     the \<open>continue\<close>. When every magnitude is zero numpy divides zero by zero: the
     weights, the average and the normalized average are NaN, the test for zero fails and
     NaN is written. The reals have no such value; the parameter \<open>nan\<close> stands for it.\<close>
  "average_normal nan vertex_normals =
     (let normal_magnitudes = map vnorm vertex_normals;
          total = sum_list normal_magnitudes
      in if total = 0 then Some (nan, nan, nan)
         else
           let weights = map (\<lambda>m. m / total) normal_magnitudes;
               weighted_normals = map2 vscale weights vertex_normals;
               avg_normal = fold (\<lambda>r s. vadd s r) weighted_normals (0, 0, 0)
           in if avg_normal = (0, 0, 0) then None
              else Some (vscale (1 / vnorm avg_normal) avg_normal))"

definition write_group ::
  "real \<Rightarrow> real list list \<Rightarrow> real list \<Rightarrow> 'a PositionVertex_scheme list \<Rightarrow> 'a PositionVertex_scheme list" where
  "write_group nan position r position_buffer =
     (case average_normal nan (map (NORMAL_xyz \<circ> snd) (filter (\<lambda>pv. fst pv = r) (zip position position_buffer))) of
        None \<Rightarrow> position_buffer
      | Some normalized_avg \<Rightarrow>
          map (\<lambda>pv. if fst pv = r then (snd pv)\<lparr>TANGENT_xyz := normalized_avg\<rparr> else snd pv)
            (zip position position_buffer))"

definition optimize_outlines ::
  "real \<Rightarrow> bool \<Rightarrow> 'a PositionVertex_scheme list \<Rightarrow> 'a PositionVertex_scheme list" where
  \<comment> \<open>\<open>numpy.unique(position, axis=0, ...)\<close> gives the sorted distinct rows; the mask
     \<open>u_inverse == i\<close> selects the rows equal to the \<open>i\<close>-th of them.\<close>
  "optimize_outlines nan self_outline_optimization position_buffer =
     (if \<not> self_outline_optimization then position_buffer
      else if length position_buffer = 0 then position_buffer
      else
        let position = map (\<lambda>v. map (\<lambda>x. np_round_decimals x 3) (POSITION v)) position_buffer;
            u = sort (remdups position);
            shared_indices = filter (\<lambda>r. 1 < length (filter (\<lambda>p. p = r) position)) u
        in fold (write_group nan position) shared_indices
             (map (\<lambda>v. v\<lparr>TANGENT_xyz := NORMAL_xyz v\<rparr>) position_buffer))"

text \<open>Two buffers that agree in length, order and every field but \<open>TANGENT_xyz\<close>.\<close>

definition same_but_tangent :: "'a PositionVertex_scheme list \<Rightarrow> 'a PositionVertex_scheme list \<Rightarrow> bool" where
  "same_but_tangent a b = list_all2 (\<lambda>v w. w\<lparr>TANGENT_xyz := TANGENT_xyz v\<rparr> = v) a b"

definition pv :: "real list \<Rightarrow> vec3 \<Rightarrow> vec3 \<Rightarrow> PositionVertex" where
  "pv p n t = \<lparr>POSITION = p, NORMAL_xyz = n, NORMAL_rest = [], TANGENT_xyz = t, TANGENT_rest = [1]\<rparr>"


definition seam_buffer :: "PositionVertex list" where
  "seam_buffer = [pv [0, 0, 0] (0, 0, 2) (1, 0, 0), pv [1, 0, 0] (0, 1, 0) (1, 0, 0),
                  pv [1 / 10000, 0, 0] (0, 0, 0) (1, 0, 0)]"

section \<open>Vertex assembly\<close>

datatype py_error =
  Fatal string | AssertionError | IndexError | KeyError | TypeError | ValueError | OutlineError

datatype GameEnum = GenshinImpact | ZenlessZoneZero | HonkaiStarRail | HonkaiImpactPart2 | OtherGame

record InputElement =
  elem_name :: string
  SemanticIndex :: nat
  InputSlotClass :: string
  reused_offset :: bool
  Format :: DXGIFormat
  format_len :: nat

record InputLayout =
  elems :: "InputElement list"
  semantic_remap :: "(string \<times> string \<times> nat) list"

record MainObj =
  FlipMesh :: bool
  FlipNormal :: bool
  FlipWinding :: bool

record MeshLayers =
  layer_deform :: "(nat \<times> real) list list option"
  layer_elements :: "InputElement \<Rightarrow> py_error + ndarray"

fun foldE :: "('a \<Rightarrow> 's \<Rightarrow> 'e + 's) \<Rightarrow> 'a list \<Rightarrow> 's \<Rightarrow> 'e + 's" where
  "foldE f [] s = Inr s"
| "foldE f (x # xs) s = (case f x s of Inl e \<Rightarrow> Inl e | Inr s' \<Rightarrow> foldE f xs s')"

definition startswith :: "string \<Rightarrow> string \<Rightarrow> bool" where
  "startswith s p = (take (length p) s = p)"

definition ends_with_UNORM :: "DXGIFormat \<Rightarrow> bool" where
  "ends_with_UNORM fmt = (fmt = UNORM16 \<or> fmt = UNORM8)"

definition normal_export_translation :: "DXGIFormat option list \<Rightarrow> bool \<Rightarrow> real \<Rightarrow> real" where
  "normal_export_translation layouts flip =
     (let unorm = fold (\<lambda>layout unorm. case layout of
                          None \<Rightarrow> unorm
                        | Some fmt \<Rightarrow> fmt = UNORM8 \<or> fmt = UNORM16) layouts False
      in if unorm then (if flip then (\<lambda>x. - x / 2 + 1 / 2) else (\<lambda>x. x / 2 + 1 / 2))
         else if flip then (\<lambda>x. - x) else (\<lambda>x. x))"

definition flip_sign :: "bool \<Rightarrow> real" where
  "flip_sign flip_mesh = - (2 * (if flip_mesh then 1 else 0) - 1)"

definition scale_column0 :: "real \<Rightarrow> real list list \<Rightarrow> real list list" where
  "scale_column0 c result = map (\<lambda>row. case row of [] \<Rightarrow> [] | x # xs \<Rightarrow> x * c # xs) result"

definition negate :: "real list list \<Rightarrow> real list list" where
  "negate result = map (map (\<lambda>x. - x)) result"

definition times2_minus1 :: "real list list \<Rightarrow> real list list" where
  "times2_minus1 result = map (map (\<lambda>x. x * 2 - 1)) result"

definition flip_and_unorm :: "bool \<Rightarrow> DXGIFormat \<Rightarrow> real list list \<Rightarrow> real list list" where
  "flip_and_unorm flip_normal fmt result =
     (let result1 = (if flip_normal then negate result else result)
      in if ends_with_UNORM fmt then times2_minus1 result1 else result1)"

definition position_element :: "Mesh \<Rightarrow> bool \<Rightarrow> InputElement \<Rightarrow> py_error + ndarray" where
  "position_element mesh flip_mesh elem =
     (if list_ex (\<lambda>l. length (vertices mesh) \<le> vertex_index l) (loops mesh) then Inl IndexError
      else if format_len elem < 3 then Inl ValueError
      else Inr (Floats (scale_column0 (flip_sign flip_mesh)
             (map (\<lambda>l. vec_list (vertices mesh ! vertex_index l) @ replicate (format_len elem - 3) 1)
                (loops mesh)))))"

definition normal_element :: "Mesh \<Rightarrow> bool \<Rightarrow> bool \<Rightarrow> InputElement \<Rightarrow> py_error + ndarray" where
  "normal_element mesh flip_mesh flip_normal elem =
     (if format_len elem < 3 then Inl ValueError
      else Inr (Floats (flip_and_unorm flip_normal (Format elem)
             (scale_column0 (flip_sign flip_mesh)
                (map (\<lambda>l. vec_list (loop_normal l) @ replicate (format_len elem - 3) 0)
                   (loops mesh))))))"

definition outline_tangents :: "Mesh \<Rightarrow> OutlineProperties \<Rightarrow> GameEnum \<Rightarrow> py_error + real list list" where
  "outline_tangents mesh outline_properties game =
     (if outline_optimization outline_properties
      then (case optimized_outline_generation mesh outline_properties of
              None \<Rightarrow> Inl OutlineError
            | Some export_outline \<Rightarrow>
                Inr (map (\<lambda>l. case dict_get export_outline (vertex_index l) of
                                Some n \<Rightarrow> n
                              | None \<Rightarrow> vec_list (loop_tangent l)) (loops mesh)))
      else if game = GenshinImpact then Inr (map (\<lambda>l. vec_list (loop_normal l)) (loops mesh))
      else Inr (map (\<lambda>l. vec_list (loop_tangent l)) (loops mesh)))"

definition tangent_element ::
  "Mesh \<Rightarrow> OutlineProperties \<Rightarrow> GameEnum \<Rightarrow> bool \<Rightarrow> bool \<Rightarrow> InputElement \<Rightarrow> py_error + ndarray" where
  "tangent_element mesh outline_properties game flip_mesh flip_normal elem =
     (case outline_tangents mesh outline_properties game of
        Inl e \<Rightarrow> Inl e
      | Inr temp_tangent \<Rightarrow>
          Inr (Floats (scale_column0 (flip_sign flip_mesh)
            (map (take (format_len elem))
               (map2 (\<lambda>t l. t @ [if game = ZenlessZoneZero then - bitangent_sign l else bitangent_sign l])
                  (flip_and_unorm flip_normal (Format elem) temp_tangent) (loops mesh))))))"

definition vertex_weights :: "MeshLayers \<Rightarrow> nat list \<Rightarrow> (nat \<times> real) list list option" where
  "vertex_weights layers masked_vgs =
     map_option (map (\<lambda>items. rev (sort_key snd (rev (filter (\<lambda>iw. fst iw \<notin> set masked_vgs) items)))))
       (layer_deform layers)"

definition pad_row :: "nat \<Rightarrow> real list \<Rightarrow> real list" where
  "pad_row n xs = take n xs @ replicate (n - length xs) 0"

definition weight_row :: "nat \<Rightarrow> (nat \<times> real) list \<Rightarrow> real list \<times> real list" where
  "weight_row fl vert =
     (if 1 < fl then (pad_row fl (map (\<lambda>gw. real (fst gw)) vert), pad_row fl (map snd vert))
      else (case vert of
              [] \<Rightarrow> (replicate fl 0, replicate fl 0)
            | _ \<Rightarrow> (replicate fl (real (fst (last vert))), replicate fl (snd (last vert)))))"

definition build_weights_np :: "nat \<Rightarrow> nat \<Rightarrow> (nat \<times> real) list list \<Rightarrow> (real list \<times> real list) list" where
  "build_weights_np n_vertices fl weights =
     map (\<lambda>i. weight_row fl (if i < length weights then weights ! i else [])) [0..<n_vertices]"

definition missing_weights :: py_error where
  "missing_weights = Fatal ''The export format is expecting weights and the model has none. Aborting.''"

type_synonym weights_table = "(nat \<times> (real list \<times> real list) list) option"

definition ensure_weights_np ::
  "Mesh \<Rightarrow> (nat \<times> real) list list option \<Rightarrow> InputElement \<Rightarrow> weights_table
   \<Rightarrow> py_error + nat \<times> (real list \<times> real list) list" where
  "ensure_weights_np mesh weights elem weights_np =
     (case weights_np of
        Some t \<Rightarrow> Inr t
      | None \<Rightarrow>
          (case weights of
             None \<Rightarrow> Inl missing_weights
           | Some w \<Rightarrow> Inr (format_len elem, build_weights_np (length (vertices mesh)) (format_len elem) w)))"

definition gather_rows ::
  "Mesh \<Rightarrow> InputElement \<Rightarrow> nat \<Rightarrow> real list list \<Rightarrow> py_error + real list list" where
  "gather_rows mesh elem blend_len table =
     (if list_ex (\<lambda>l. length table \<le> vertex_index l) (loops mesh) then Inl IndexError
      else if format_len elem \<noteq> blend_len then Inl ValueError
      else Inr (map (\<lambda>l. table ! vertex_index l) (loops mesh)))"

definition normalize_rows :: "nat \<Rightarrow> real list list \<Rightarrow> real list list" where
  "normalize_rows fl result =
     (if 1 < fl then map (\<lambda>row. map (\<lambda>x. x / sum_list row) row) result
      else map (map (\<lambda>x. x / x)) result)"

definition translated_name :: "InputLayout \<Rightarrow> InputElement \<Rightarrow> string" where
  "translated_name fmt_layout elem =
     (case dict_get (semantic_remap fmt_layout) (elem_name elem) of
        Some ni \<Rightarrow> fst ni
      | None \<Rightarrow> elem_name elem)"

definition skipped :: "InputElement \<Rightarrow> bool" where
  "skipped elem = (InputSlotClass elem \<noteq> ''per-vertex'' \<or> reused_offset elem)"

definition element_result ::
  "bool \<Rightarrow> Mesh \<Rightarrow> MeshLayers \<Rightarrow> (nat \<times> real) list list option \<Rightarrow> InputLayout \<Rightarrow> GameEnum
   \<Rightarrow> bool \<Rightarrow> bool \<Rightarrow> OutlineProperties \<Rightarrow> InputElement \<Rightarrow> weights_table
   \<Rightarrow> py_error + weights_table \<times> ndarray" where
  "element_result normalize_weights mesh layers weights fmt_layout game flip_mesh flip_normal
       outline_properties elem weights_np =
     (let translated_elem_name = translated_name fmt_layout elem in
      if translated_elem_name = ''POSITION''
      then map_sum id (Pair weights_np) (position_element mesh flip_mesh elem)
      else if translated_elem_name = ''NORMAL''
      then map_sum id (Pair weights_np) (normal_element mesh flip_mesh flip_normal elem)
      else if startswith translated_elem_name ''TANGENT''
      then map_sum id (Pair weights_np)
             (tangent_element mesh outline_properties game flip_mesh flip_normal elem)
      else if startswith translated_elem_name ''BLENDWEIGHT''
      then (case ensure_weights_np mesh weights elem weights_np of
              Inl e \<Rightarrow> Inl e
            | Inr t \<Rightarrow>
               (case gather_rows mesh elem (fst t) (map snd (snd t)) of
                  Inl e \<Rightarrow> Inl e
                | Inr result \<Rightarrow>
                    Inr (Some t, Floats (if normalize_weights
                                         then normalize_rows (format_len elem) result
                                         else result))))
      else if startswith translated_elem_name ''BLENDINDICES''
      then (case ensure_weights_np mesh weights elem weights_np of
              Inl e \<Rightarrow> Inl e
            | Inr t \<Rightarrow>
               (case gather_rows mesh elem (fst t) (map fst (snd t)) of
                  Inl e \<Rightarrow> Inl e
                | Inr result \<Rightarrow> Inr (Some t, Floats result)))
      else map_sum id (Pair weights_np) (layer_elements layers elem))"

definition process_element ::
  "bool \<Rightarrow> Mesh \<Rightarrow> MeshLayers \<Rightarrow> (nat \<times> real) list list option \<Rightarrow> InputLayout \<Rightarrow> GameEnum
   \<Rightarrow> bool \<Rightarrow> bool \<Rightarrow> OutlineProperties \<Rightarrow> InputElement
   \<Rightarrow> weights_table \<times> (string \<times> ndarray) list
   \<Rightarrow> py_error + weights_table \<times> (string \<times> ndarray) list" where
  "process_element normalize_weights mesh layers weights fmt_layout game flip_mesh flip_normal
       outline_properties elem st =
     (if skipped elem then Inr st
      else
        (case element_result normalize_weights mesh layers weights fmt_layout game flip_mesh
                flip_normal outline_properties elem (fst st) of
           Inl e \<Rightarrow> Inl e
         | Inr wr \<Rightarrow>
             Inr (fst wr,
                  dict_modify (snd st) (elem_name elem)
                    (\<lambda>old. if startswith (translated_name fmt_layout elem) ''BLENDINDICES''
                            then snd wr else quantize (Format elem) (snd wr)))))"

definition zero_field :: "nat \<Rightarrow> InputElement \<Rightarrow> string \<times> ndarray" where
  "zero_field n elem =
     (elem_name elem,
      if Format elem = FLOAT32 \<or> Format elem = FLOAT16
      then Floats (replicate n (replicate (format_len elem) 0))
      else Ints (replicate n (replicate (format_len elem) 0)))"

definition blender_to_migoto_vertices ::
  "bool \<Rightarrow> Mesh \<Rightarrow> MeshLayers \<Rightarrow> nat list \<Rightarrow> InputLayout \<Rightarrow> GameEnum \<Rightarrow> MainObj
   \<Rightarrow> OutlineProperties \<Rightarrow> py_error + (string \<times> ndarray) list" where
  "blender_to_migoto_vertices normalize_weights mesh layers masked_vgs fmt_layout game main_obj
       outline_properties =
     (if list_ex (\<lambda>elem. \<not> skipped elem \<and> Format elem = UNSUPPORTED) (elems fmt_layout)
      then Inl (Fatal ''File uses an unsupported DXGI Format'')
      else if length (polygons mesh) = 0
      then Inr (map (zero_field (length (loops mesh))) (filter (\<lambda>e. \<not> skipped e) (elems fmt_layout)))
      else map_sum id snd
             (foldE (process_element normalize_weights mesh layers (vertex_weights layers masked_vgs)
                       fmt_layout game (FlipMesh main_obj) (FlipNormal main_obj) outline_properties)
                (elems fmt_layout)
                (None, map (zero_field (length (loops mesh)))
                         (filter (\<lambda>e. \<not> skipped e) (elems fmt_layout)))))"

section \<open>Index and vertex buffers\<close>

datatype field_row = FloatRow "real list" | IntRow "int list"

fun array_rows :: "ndarray \<Rightarrow> field_row list" where
  "array_rows (Floats m) = map FloatRow m"
| "array_rows (Ints m) = map IntRow m"

definition record_at :: "(string \<times> ndarray) list \<Rightarrow> nat \<Rightarrow> field_row list option" where
  "record_at migoto_verts i =
     those (map (\<lambda>f. if i < length (array_rows (snd f)) then Some (array_rows (snd f) ! i) else None)
              migoto_verts)"

definition index_step :: "'k \<Rightarrow> ('k \<times> nat) list \<times> nat list \<Rightarrow> ('k \<times> nat) list \<times> nat list" where
  "index_step key st =
     (case dict_get (fst st) key of
        Some i \<Rightarrow> (fst st, snd st @ [i])
      | None \<Rightarrow> (fst st @ [(key, length (fst st))], snd st @ [length (fst st)]))"

definition index_stream :: "'k list \<Rightarrow> ('k \<times> nat) list \<times> nat list" where
  "index_stream keys = fold index_step keys ([], [])"

fun rows_of_three :: "'a list \<Rightarrow> 'a list list option" where
  "rows_of_three [] = Some []"
| "rows_of_three (a # b # c # xs) = map_option ((#) [a, b, c]) (rows_of_three xs)"
| "rows_of_three _ = None"

definition fliplr :: "'a list list \<Rightarrow> 'a list list" where
  "fliplr rows = map rev rows"

definition loop_records ::
  "Mesh \<Rightarrow> (string \<times> ndarray) list \<Rightarrow> py_error + field_row list list" where
  "loop_records mesh migoto_verts =
     (if list_ex (\<lambda>l. length (loops mesh) \<le> vertex_index l) (loops mesh) then Inl IndexError
      else case those (map (\<lambda>l. record_at migoto_verts (vertex_index l)) (loops mesh)) of
             None \<Rightarrow> Inl IndexError
           | Some keys \<Rightarrow> Inr keys)"

definition ib_vb_gen ::
  "bool \<Rightarrow> field_row list list \<Rightarrow> py_error + nat list list \<times> field_row list list" where
  "ib_vb_gen flip keys =
     (case rows_of_three (snd (index_stream keys)) of
        None \<Rightarrow> Inl ValueError
      | Some ib_data \<Rightarrow>
          Inr (if flip then fliplr ib_data else ib_data, map fst (fst (index_stream keys))))"

definition mesh_to_bin ::
  "bool \<Rightarrow> Mesh \<Rightarrow> MeshLayers \<Rightarrow> nat list \<Rightarrow> InputLayout \<Rightarrow> GameEnum \<Rightarrow> MainObj
   \<Rightarrow> OutlineProperties \<Rightarrow> py_error + nat list list \<times> field_row list list" where
  "mesh_to_bin normalize_weights mesh layers masked_vgs migoto_format game main_obj outline_properties =
     (if length (polygons mesh) = 0 then Inr ([], [])
      else
        (case blender_to_migoto_vertices normalize_weights mesh layers masked_vgs migoto_format game
                main_obj outline_properties of
           Inl e \<Rightarrow> Inl e
         | Inr migoto_verts \<Rightarrow>
            (case loop_records mesh migoto_verts of
               Inl e \<Rightarrow> Inl e
             | Inr keys \<Rightarrow> ib_vb_gen (FlipMesh main_obj \<noteq> FlipWinding main_obj) keys)))"

definition export_face ::
  "('l \<Rightarrow> 'v) \<Rightarrow> bool \<Rightarrow> 'l list \<Rightarrow> ('v \<times> nat) list \<times> nat list list
   \<Rightarrow> ('v \<times> nat) list \<times> nat list list" where
  "export_face vertex_of flip_winding poly st =
     (let st1 = fold index_step (map vertex_of poly) (fst st, [])
      in (fst st1, snd st @ [if flip_winding then rev (snd st1) else snd st1]))"

definition export_3dmigoto_buffers :: "('l \<Rightarrow> 'v) \<Rightarrow> bool \<Rightarrow> 'l list list \<Rightarrow> nat list list \<times> 'v list" where
  "export_3dmigoto_buffers vertex_of flip_winding polys =
     (let st = fold (export_face vertex_of flip_winding) polys ([], [])
      in (snd st, map fst (fst st)))"

definition mloop :: "nat \<Rightarrow> MeshLoop" where
  "mloop v = \<lparr>vertex_index = v, loop_normal = (0, 0, 1), loop_tangent = (1, 0, 0), bitangent_sign = 1\<rparr>"

definition quad_mesh :: Mesh where
  "quad_mesh = \<lparr>vertices = [(1, 0, 0), (2, 0, 0), (1, 1, 0), (2, 1, 0)],
     loops = map mloop [0, 1, 2, 2, 1, 3],
     polygons = [triangle [0, 1, 2] (0, 0, 1), triangle [2, 1, 3] (0, 0, 1)]\<rparr>"

definition element :: "string \<Rightarrow> string \<Rightarrow> DXGIFormat \<Rightarrow> nat \<Rightarrow> InputElement" where
  "element n c f k = \<lparr>elem_name = n, SemanticIndex = 0, InputSlotClass = c, reused_offset = False,
     Format = f, format_len = k\<rparr>"

definition layout_of :: "InputElement list \<Rightarrow> InputLayout" where
  "layout_of es = \<lparr>elems = es, semantic_remap = []\<rparr>"

definition no_layers :: MeshLayers where
  "no_layers = \<lparr>layer_deform = None, layer_elements = (\<lambda>e. Inl KeyError)\<rparr>"

definition flags :: "bool \<Rightarrow> bool \<Rightarrow> MainObj" where
  "flags fm fw = \<lparr>FlipMesh = fm, FlipNormal = False, FlipWinding = fw\<rparr>"

definition no_outline :: OutlineProperties where
  "no_outline = plain_props\<lparr>outline_optimization := False\<rparr>"


definition blend_channel :: "InputLayout \<Rightarrow> InputElement \<Rightarrow> bool" where
  "blend_channel fmt_layout elem =
     (\<not> skipped elem
      \<and> (startswith (translated_name fmt_layout elem) ''BLENDWEIGHT''
         \<or> startswith (translated_name fmt_layout elem) ''BLENDINDICES''))"

definition tri_mesh :: Mesh where
  "tri_mesh = \<lparr>vertices = [(1, 0, 0), (2, 0, 0), (1, 1, 0)],
     loops = map mloop [0, 1, 2],
     polygons = [triangle [0, 1, 2] (0, 0, 1)]\<rparr>"

definition indexed :: "('k \<times> nat) list \<Rightarrow> bool" where
  "indexed d = (map snd d = [0..<length d] \<and> distinct (map fst d))"

section \<open>Properties of \<open>unit_vector\<close>\<close>

lemma sum_squares_nonneg: "0 \<le> sum_list (map (\<lambda>x. x * x) (v :: real list))"
  by (induction v) auto

lemma sum_squares_zero_iff:
  "sum_list (map (\<lambda>x. x * x) (v :: real list)) = 0 \<longleftrightarrow> (\<forall>x\<in>set v. x = 0)"
proof (induction v)
  case Nil
  then show ?case by simp
next
  case (Cons a v)
  have "a * a + sum_list (map (\<lambda>x. x * x) v) = 0
        \<longleftrightarrow> a * a = 0 \<and> sum_list (map (\<lambda>x. x * x) v) = 0"
    using sum_squares_nonneg [of v] by (intro add_nonneg_eq_0_iff) auto
  with Cons show ?case by simp
qed

lemma linalg_norm_zero_iff: "linalg_norm v = 0 \<longleftrightarrow> (\<forall>x\<in>set v. x = 0)"
  using sum_squares_zero_iff [of v] by (simp add: linalg_norm_def)

lemma linalg_norm_nonneg: "0 \<le> linalg_norm v"
  by (simp add: linalg_norm_def sum_squares_nonneg)

lemma component_le_norm: "x \<in> set v \<Longrightarrow> \<bar>x\<bar> \<le> linalg_norm v"
proof -
  assume x: "x \<in> set v"
  have "x * x \<le> sum_list (map (\<lambda>x. x * x) v)"
    using x by (intro member_le_sum_list) auto
  then have "sqrt (x * x) \<le> linalg_norm v"
    unfolding linalg_norm_def by (rule real_sqrt_le_mono)
  then show ?thesis by simp
qed

lemma linalg_norm_scale: "linalg_norm (map (\<lambda>x. x / a) v) = linalg_norm v / \<bar>a\<bar>"
proof -
  have "sum_list (map (\<lambda>x. (x / a) * (x / a)) v) = sum_list (map (\<lambda>x. x * x) v) / (a * a)"
    by (induction v) (auto simp: add_divide_distrib)
  then show ?thesis
    by (simp add: linalg_norm_def comp_def real_sqrt_divide)
qed

lemma unit_vector_norm_one: "linalg_norm v \<noteq> 0 \<Longrightarrow> linalg_norm (unit_vector v) = 1"
  using linalg_norm_nonneg [of v] by (simp add: unit_vector_def Let_def linalg_norm_scale)

lemma unit_vector_zero: "linalg_norm v = 0 \<Longrightarrow> unit_vector v = replicate (length v) 0"
  by (simp add: unit_vector_def map_replicate_const)

text \<open>
  Claim C9. \<open>unit_vector\<close> is total and its division is guarded: the result has the shape
  of the input, every component of it lies between -1 and 1 (so none is infinite or
  undefined), and an input of norm zero, the zero vector among them, gives the zero
  vector.
\<close>

theorem unit_vector_total_guarded:
  "length (unit_vector v) = length v
   \<and> (\<forall>x\<in>set (unit_vector v). \<bar>x\<bar> \<le> 1)
   \<and> (linalg_norm v = 0 \<longrightarrow> unit_vector v = replicate (length v) 0)
   \<and> unit_vector (replicate n 0) = replicate n 0"
proof (intro conjI)
  show "length (unit_vector v) = length v"
    by (simp add: unit_vector_def Let_def)
  show "\<forall>x\<in>set (unit_vector v). \<bar>x\<bar> \<le> 1"
  proof (cases "linalg_norm v = 0")
    case True
    then have "unit_vector v = replicate (length v) 0"
      by (rule unit_vector_zero)
    then show ?thesis by simp
  next
    case False
    then have pos: "0 < linalg_norm v"
      using linalg_norm_nonneg [of v] by simp
    have uv: "unit_vector v = map (\<lambda>x. x / linalg_norm v) v"
      using False by (simp add: unit_vector_def Let_def)
    show ?thesis
    proof
      fix y assume "y \<in> set (unit_vector v)"
      then obtain x where x: "x \<in> set v" and y: "y = x / linalg_norm v"
        unfolding uv by auto
      have "\<bar>x\<bar> \<le> linalg_norm v"
        using x by (rule component_le_norm)
      then show "\<bar>y\<bar> \<le> 1"
        using pos y by simp
    qed
  qed
  show "linalg_norm v = 0 \<longrightarrow> unit_vector v = replicate (length v) 0"
    by (simp add: unit_vector_zero)
  have "linalg_norm (replicate n 0) = 0"
    by (simp add: linalg_norm_zero_iff)
  then show "unit_vector (replicate n 0) = replicate n 0"
    by (simp add: unit_vector_zero)
qed

theorem unit_vector_total_guarded_witness:
  "linalg_norm [0, 0, 0] = 0 \<and> unit_vector [0, 0, 0] = [0, 0, 0]
   \<and> unit_vector [0, 0, 2] = [0, 0, 1] \<and> \<bar>1 :: real\<bar> \<le> 1"
proof -
  have n: "linalg_norm [0, 0, 0] = 0"
    by (simp add: linalg_norm_def)
  have "unit_vector [0, 0, 0] = replicate (length [0 :: real, 0, 0]) 0"
    using unit_vector_total_guarded [of "[0, 0, 0]" 0] n by blast
  moreover have "unit_vector [0, 0, 2] = [0, 0, 1]"
    by (simp add: unit_vector_def linalg_norm_def)
  ultimately show ?thesis
    using n by simp
qed

section \<open>Quantization of normalized values\<close>

lemma np_round_of_int: "np_round (of_int k) = k"
  by (simp add: np_round_def)

lemma np_round_nearest: "\<bar>of_int (np_round x) - x\<bar> \<le> 1 / 2"
proof -
  have "of_int \<lfloor>x\<rfloor> \<le> x" "x < of_int \<lfloor>x\<rfloor> + 1"
    by linarith+
  then show ?thesis
    by (auto simp: np_round_def Let_def)
qed

lemma astype_uint_range: "0 \<le> astype_uint w n \<and> astype_uint w n < 2 ^ w"
  by (simp add: astype_uint_def)

lemma astype_uint_id: "0 \<le> n \<Longrightarrow> n < 2 ^ w \<Longrightarrow> astype_uint w n = n"
  by (simp add: astype_uint_def)

lemma astype_int_range: "0 < w \<Longrightarrow> - (2 ^ (w - 1)) \<le> astype_int w n \<and> astype_int w n < 2 ^ (w - 1)"
proof -
  assume w: "0 < w"
  have "(2::int) ^ w = 2 * 2 ^ (w - 1)"
    using w by (cases w) auto
  moreover have "0 \<le> (n + 2 ^ (w - 1)) mod 2 ^ w" "(n + 2 ^ (w - 1)) mod 2 ^ w < 2 ^ w"
    by simp_all
  ultimately show ?thesis
    by (simp add: astype_int_def)
qed

lemma astype_int_id: "0 < w \<Longrightarrow> - (2 ^ (w - 1)) \<le> n \<Longrightarrow> n < 2 ^ (w - 1) \<Longrightarrow> astype_int w n = n"
proof -
  assume w: "0 < w" and lo: "- (2 ^ (w - 1)) \<le> n" and hi: "n < 2 ^ (w - 1)"
  have "(2::int) ^ w = 2 * 2 ^ (w - 1)"
    using w by (cases w) auto
  then have "(n + 2 ^ (w - 1)) mod 2 ^ w = n + 2 ^ (w - 1)"
    using lo hi by (intro mod_pos_pos_trivial) auto
  then show ?thesis
    by (simp add: astype_int_def)
qed

lemma quantize_norm:
  "is_norm fmt \<Longrightarrow>
   quantize fmt (Floats m) = Ints (map (map (\<lambda>x. norm_cast fmt (np_round (x * of_int (norm_max fmt))))) m)"
  by (auto simp: is_norm_def quantize_def round_scaled_def norm_cast_def)

lemma norm_cast_range: "is_norm fmt \<Longrightarrow> type_min fmt \<le> norm_cast fmt n \<and> norm_cast fmt n \<le> norm_max fmt"
  using astype_uint_range [of 16 n] astype_uint_range [of 8 n]
    astype_int_range [of 16 n] astype_int_range [of 8 n]
  by (auto simp: is_norm_def norm_cast_def)

lemma norm_cast_id:
  "is_norm fmt \<Longrightarrow> type_min fmt \<le> n \<Longrightarrow> n \<le> norm_max fmt \<Longrightarrow> norm_cast fmt n = n"
  using astype_uint_id [of n 16] astype_uint_id [of n 8]
    astype_int_id [of 16 n] astype_int_id [of 8 n]
  by (auto simp: is_norm_def norm_cast_def)

lemma norm_max_pos: "is_norm fmt \<Longrightarrow> 0 < norm_max fmt"
  by (auto simp: is_norm_def)

text \<open>
  Claim C3, as the code has it. For a normalized format the stored integer is
  \<open>numpy.round\<close> of the product with the format's largest integer (the nearest integer,
  a tie going to the even neighbour), converted by \<open>astype\<close>. The conversion keeps a
  rounded product that lies in the range of the integer type and wraps any other one into
  that range: nothing is clamped. Every integer \<open>k\<close> of the range is the encoding of
  \<open>k / max\<close>.
\<close>

theorem quantize_rounds_to_even_and_wraps:
  assumes "is_norm fmt"
  shows "\<exists>enc.
      (\<forall>m. quantize fmt (Floats m) = Ints (map (map enc) m))
    \<and> (\<forall>x. type_min fmt \<le> enc x \<and> enc x \<le> norm_max fmt
          \<and> \<bar>of_int (np_round (x * of_int (norm_max fmt))) - x * of_int (norm_max fmt)\<bar> \<le> 1 / 2
          \<and> (type_min fmt \<le> np_round (x * of_int (norm_max fmt))
               \<and> np_round (x * of_int (norm_max fmt)) \<le> norm_max fmt
              \<longrightarrow> enc x = np_round (x * of_int (norm_max fmt))))
    \<and> (\<forall>k. type_min fmt \<le> k \<and> k \<le> norm_max fmt
          \<longrightarrow> enc (of_int k / of_int (norm_max fmt)) = k)"
proof (intro exI conjI allI impI)
  let ?enc = "\<lambda>x. norm_cast fmt (np_round (x * of_int (norm_max fmt)))"
  fix m x k
  show "quantize fmt (Floats m) = Ints (map (map ?enc) m)"
    using assms by (rule quantize_norm)
  show "type_min fmt \<le> ?enc x" "?enc x \<le> norm_max fmt"
    using norm_cast_range [OF assms] by auto
  show "\<bar>of_int (np_round (x * of_int (norm_max fmt))) - x * of_int (norm_max fmt)\<bar> \<le> 1 / 2"
    by (rule np_round_nearest)
  show "?enc x = np_round (x * of_int (norm_max fmt))"
    if "type_min fmt \<le> np_round (x * of_int (norm_max fmt))
        \<and> np_round (x * of_int (norm_max fmt)) \<le> norm_max fmt"
    using that norm_cast_id [OF assms] by blast
  show "?enc (of_int k / of_int (norm_max fmt)) = k"
    if "type_min fmt \<le> k \<and> k \<le> norm_max fmt"
  proof -
    have "of_int k / of_int (norm_max fmt) * (of_int (norm_max fmt) :: real) = of_int k"
      using norm_max_pos [OF assms] by simp
    then show ?thesis
      using that norm_cast_id [OF assms] by (simp add: np_round_of_int)
  qed
qed

theorem quantize_rounds_to_even_and_wraps_witness:
  "is_norm UNORM8 \<and> quantize UNORM8 (Floats [[1 / 2, 1]]) = Ints [[128, 255]]"
proof -
  have n: "is_norm UNORM8"
    by (simp add: is_norm_def)
  from quantize_rounds_to_even_and_wraps [OF n]
  obtain enc where q: "\<And>m. quantize UNORM8 (Floats m) = Ints (map (map enc) m)"
    and r: "\<And>x. type_min UNORM8 \<le> np_round (x * of_int (norm_max UNORM8))
               \<and> np_round (x * of_int (norm_max UNORM8)) \<le> norm_max UNORM8
              \<longrightarrow> enc x = np_round (x * of_int (norm_max UNORM8))"
    and inv: "\<And>k. type_min UNORM8 \<le> k \<and> k \<le> norm_max UNORM8
          \<longrightarrow> enc (of_int k / of_int (norm_max UNORM8)) = k"
    by blast
  have h: "np_round (1 / 2 * of_int (norm_max UNORM8)) = 128"
    by (simp add: np_round_def)
  have "enc (1 / 2) = 128"
    using r [of "1 / 2"] h by simp
  moreover have "enc 1 = 255"
    using inv [of 255] by simp
  ultimately show ?thesis
    using n q [of "[[1 / 2, 1]]"] by simp
qed

text \<open>
  The claim as worded (round half away from zero, then clamp) fails: at 2 the UNORM8
  encoding is 254 where a clamp gives 255, and where the product is exactly one half the
  code stores 0 where rounding half away from zero gives 1.
\<close>

theorem quantize_clamp_counterexample:
  "quantize UNORM8 (Floats [[2]]) = Ints [[254]] \<and> spec_norm_encode UNORM8 2 = 255
   \<and> quantize UNORM8 (Floats [[1 / 510]]) = Ints [[0]] \<and> spec_norm_encode UNORM8 (1 / 510) = 1"
  by (simp add: quantize_def round_scaled_def np_round_def astype_uint_def
      spec_norm_encode_def round_half_away_def)


section \<open>Outline optimizer\<close>

lemma foldM_invariant:
  assumes "foldM f xs s = Some s'" and "P s"
    and "\<And>x s s'. x \<in> set xs \<Longrightarrow> P s \<Longrightarrow> f x s = Some s' \<Longrightarrow> P s'"
  shows "P s'"
  using assms
proof (induction xs arbitrary: s)
  case Nil
  then show ?case by simp
next
  case (Cons x xs)
  from Cons.prems(1) obtain s1 where s1: "f x s = Some s1" and rest: "foldM f xs s1 = Some s'"
    by (auto split: option.splits)
  have "P s1"
    using Cons.prems(2,3) s1 by auto
  then show ?case
    using Cons.IH [OF rest] Cons.prems(3) by auto
qed

lemma unit_values_setdefault:
  "unit_values eo \<Longrightarrow> linalg_norm n = 1 \<Longrightarrow> unit_values (setdefault eo k n)"
  by (simp add: unit_values_def setdefault_def)

lemma unit_vector_vec3_nonzero:
  "unit_vector (vec_list s) \<noteq> [0, 0, 0] \<Longrightarrow> linalg_norm (unit_vector (vec_list s)) = 1"
proof -
  assume nz: "unit_vector (vec_list s) \<noteq> [0, 0, 0]"
  have len: "length (vec_list s) = 3"
    by (cases s) (simp add: vec_list_def)
  have "linalg_norm (vec_list s) \<noteq> 0"
  proof
    assume "linalg_norm (vec_list s) = 0"
    then have "unit_vector (vec_list s) = replicate (length (vec_list s)) 0"
      by (rule unit_vector_zero)
    then show False
      using nz len by (simp add: numeral_3_eq_3)
  qed
  then show ?thesis
    by (rule unit_vector_norm_one)
qed

lemma store_group_unit:
  assumes "unit_values (fst st)"
  shows "unit_values (fst (store_group rl key vg (unit_vector (vec_list s)) st))"
proof (cases "unit_vector (vec_list s) = [0, 0, 0]")
  case True
  then show ?thesis
    using assms by (simp add: store_group_def)
next
  case False
  then have n: "linalg_norm (unit_vector (vec_list s)) = 1"
    by (rule unit_vector_vec3_nonzero)
  have "unit_values (fst (fold (\<lambda>vertexf st. (setdefault (fst st) vertexf (unit_vector (vec_list s)),
          set_add (snd st) vertexf)) vg st))"
    using assms by (induction vg arbitrary: st) (simp_all add: unit_values_setdefault n)
  then show ?thesis
    using assms n by (simp add: store_group_def unit_values_setdefault)
qed

lemma calculation_step_unit:
  assumes "calculation_step props d cfbsv rl kv st = Some st'" and "unit_values (fst st)"
  shows "unit_values (fst st')"
  using assms
  by (cases kv) (auto simp: calculation_step_def store_group_unit split: if_splits option.splits)

lemma unit_vector_vec3_zero: "unit_vector (vec_list (0, 0, 0)) = [0, 0, 0]"
  by (simp add: unit_vector_def vec_list_def linalg_norm_def)

lemma those_map_Some:
  "those (map f xs) = Some ys \<Longrightarrow> x \<in> set xs \<Longrightarrow> \<exists>y. f x = Some y"
  by (induction xs arbitrary: ys) (auto split: option.splits)

lemma those_map_total:
  "(\<And>x. x \<in> set xs \<Longrightarrow> \<exists>y. f x = Some y) \<Longrightarrow> \<exists>ys. those (map f xs) = Some ys"
proof (induction xs)
  case Nil
  then show ?case by simp
next
  case (Cons a xs)
  then obtain y ys where "f a = Some y" "those (map f xs) = Some ys"
    by (metis list.set_intros(1) list.set_intros(2))
  then show ?case by simp
qed

lemma face_contribution_normal:
  "face_contribution props d vg facei = Some r \<Longrightarrow> \<exists>n. dict_get (Face_Normals d) facei = Some n"
  by (auto simp: face_contribution_def split: option.splits)

lemma group_normal_sum_normals:
  assumes "group_normal_sum props d vg faces = Some s"
  shows "\<exists>ns. those (map (dict_get (Face_Normals d)) faces) = Some ns"
proof (rule those_map_total)
  fix x assume x: "x \<in> set faces"
  from assms obtain rows where "those (map (face_contribution props d vg) faces) = Some rows"
    by (auto simp: group_normal_sum_def split: option.splits)
  then obtain r where "face_contribution props d vg x = Some r"
    using x those_map_Some by fastforce
  then show "\<exists>y. dict_get (Face_Normals d) x = Some y"
    by (rule face_contribution_normal)
qed

lemma calculation_step_zero_sum:
  assumes "dict_get cfbsv key = Some faces"
    and "group_normal_sum props d vg faces = Some (0, 0, 0)"
  shows "calculation_step props d cfbsv rl (key, vg) st = Some st"
proof -
  obtain ns where "those (map (dict_get (Face_Normals d)) faces) = Some ns"
    using group_normal_sum_normals [OF assms(2)] by blast
  then show ?thesis
    using assms by (simp add: calculation_step_def store_group_def unit_vector_vec3_zero)
qed

text \<open>
  Claim C5. Every direction in the map that \<open>optimized_outline_generation\<close> returns has
  unit length, whatever the mesh and the settings; and processing a group whose summed
  (weighted) face normal is the zero vector leaves the map and the set of iterated
  vertices as they were, so the group contributes no entry.
\<close>

theorem outline_overrides_unit_or_absent:
  "(optimized_outline_generation mesh props = Some export_outline
      \<longrightarrow> (\<forall>kv\<in>set export_outline. linalg_norm (snd kv) = 1))
   \<and> (dict_get cfbsv key = Some faces \<and> group_normal_sum props d vg faces = Some (0, 0, 0)
      \<longrightarrow> calculation_step props d cfbsv rl (key, vg) st = Some st)"
proof (intro conjI impI)
  assume gen: "optimized_outline_generation mesh props = Some export_outline"
  then obtain d0 cf sv rl0 st' where
    run: "foldM (calculation_step props d0 cf rl0) sv ([], []) = Some st'"
    and eo: "export_outline = fst st'"
    by (auto simp: optimized_outline_generation_def Let_def split: option.splits if_splits)
  have "unit_values (fst st')"
    by (rule foldM_invariant [OF run, where P = "\<lambda>st. unit_values (fst st)"])
      (auto simp: unit_values_def intro: calculation_step_unit [unfolded unit_values_def])
  then show "\<forall>kv\<in>set export_outline. linalg_norm (snd kv) = 1"
    using eo by (simp add: unit_values_def list_all_iff)
next
  assume "dict_get cfbsv key = Some faces \<and> group_normal_sum props d vg faces = Some (0, 0, 0)"
  then show "calculation_step props d cfbsv rl (key, vg) st = Some st"
    using calculation_step_zero_sum by blast
qed

lemmas outline_eval =
  optimized_outline_generation_def pre_dictionary_def visit_polygon_def visit_vertex_def
  empty_data_def dict_extend_def setdefault_def dict_modify_def dict_keys_def set_add_def
  dict_set_add_def round_coords_def py_round_def pow10_def np_round_def upt_rec Let_def
  build_same_vertex_def connected_faces_by_same_vertex_def dict_set_update_def set_update_def
  dict_get_def calculation_step_def group_normal_sum_def face_contribution_def
  weighted_normal_row_def store_group_def vadd_def vec_list_def triangle_def

lemma seam_pre: "pre_dictionary seam_mesh plain_props 0 = Some
  \<lparr>Face_Verts = [(0, [0, 1, 2]), (1, [3, 2, 4])],
     Face_Normals = [(0, 0, 0, 1), (1, 0, 0, 1)],
     Connected_Faces = [(0, [0]), (1, [0]), (2, [0, 1]), (3, [1]), (4, [1])],
     searched_vertex_pos = [0, 1, 2, 3, 4],
     Pos_Same_Vertices = [((0, 0, 0), [0, 3]), ((1, 0, 0), [1]), ((0, 1, 0), [2]), ((- 1, 0, 0), [4])],
     Pos_Close_Vertices = [], Numpy_Position = []\<rparr>"
  by (simp add: seam_mesh_def plain_props_def outline_eval)

lemma unit_z: "unit_vector [0, 0, 2] = [0, 0, 1]"
  by (simp add: unit_vector_def linalg_norm_def)

lemma seam_result:
  "optimized_outline_generation seam_mesh plain_props = Some [(0, [0, 0, 1]), (3, [0, 0, 1])]"
  unfolding optimized_outline_generation_def
  apply (simp add: Let_def seam_pre plain_props_def[THEN arg_cong, of detect_edges] )
  apply (simp add: plain_props_def outline_eval unit_z)
  done

lemma map_of_dict_modify:
  "map_of (dict_modify d k f) y = (if y = k then map_option f (map_of d y) else map_of d y)"
  by (induction d) (auto simp: dict_modify_def)

lemma member_sets_add:
  assumes "same_vertex_add sv x v = Some sv1"
  shows "member_sets sv1 y = (if y = x then map_option (insert v) (member_sets sv y) else member_sets sv y)"
proof -
  from assms have sv1: "sv1 = dict_modify sv x (\<lambda>s. set_add s v)"
    by (auto simp: same_vertex_add_def split: option.splits)
  have "set (set_add s v) = insert v (set s)" for s
    by (auto simp: set_add_def)
  then show ?thesis
    by (simp add: sv1 member_sets_def dict_get_def map_of_dict_modify option.map_comp comp_def)
qed

lemma member_sets_add_all:
  assumes "foldM (\<lambda>x sv. same_vertex_add sv x v) vg sv = Some sv1"
  shows "member_sets sv1 y = (if y \<in> set vg then map_option (insert v) (member_sets sv y) else member_sets sv y)"
  using assms
proof (induction vg arbitrary: sv)
  case Nil
  then show ?case by simp
next
  case (Cons x vg)
  from Cons.prems obtain sv0 where a: "same_vertex_add sv x v = Some sv0"
    and b: "foldM (\<lambda>x sv. same_vertex_add sv x v) vg sv0 = Some sv1"
    by (auto split: option.splits)
  show ?case
    unfolding Cons.IH [OF b] member_sets_add [OF a]
    by (cases "member_sets sv y") auto
qed

lemma member_sets_merge:
  assumes "merge_closest verts_obj ned p vg v sv = Some sv1"
  shows "member_sets sv1 y =
    (if y \<in> set vg \<and> v \<notin> set vg \<and> in_box p ned (verts_obj ! v)
     then map_option (insert v) (member_sets sv y) else member_sets sv y)"
  using assms member_sets_add_all [of v vg sv sv1 y]
  by (auto simp: merge_closest_def split: if_splits)

lemma member_sets_merge_all:
  assumes "foldM (merge_closest verts_obj ned p vg) cg sv = Some sv1"
  shows "member_sets sv1 y =
    (if y \<in> set vg
     then map_option (\<lambda>S. S \<union> {v \<in> set cg. v \<notin> set vg \<and> in_box p ned (verts_obj ! v)}) (member_sets sv y)
     else member_sets sv y)"
  using assms
proof (induction cg arbitrary: sv)
  case Nil
  then show ?case by (cases "member_sets sv y") auto
next
  case (Cons v cg)
  from Cons.prems obtain sv0 where a: "merge_closest verts_obj ned p vg v sv = Some sv0"
    and b: "foldM (merge_closest verts_obj ned p vg) cg sv0 = Some sv1"
    by (auto split: option.splits)
  show ?case
    unfolding Cons.IH [OF b] member_sets_merge [OF a]
    by (cases "member_sets sv y") auto
qed

lemma set_set_update: "set (set_update s xs) = set s \<union> set xs"
  unfolding set_update_def
  by (induction xs arbitrary: s) (auto simp: set_add_def)

text \<open>
  Claim C7, as the code has it. For a group flagged as an open seam (the enclosure test
  returns False), with \<open>p\<close> the position of the group's first vertex: when the search
  of the tolerance box yields exactly one candidate, the group is left as it is, with
  nothing merged and nothing marked; when it yields any other number of candidates,
  every member of the group is marked for local-only repositioning, and every candidate
  that is outside the group and whose position lies within the box is added to the
  Same_Vertex set of every member of the group (the sets of the other vertices do not
  change). In the calculation a marked key with a nonzero direction gets an entry of its
  own only: no other vertex gets an entry and no vertex is recorded as iterated.
\<close>

theorem edge_detection_merges_and_marks:
  assumes "group_enclosed d sv vg = Some False"
    and "edge_detection_group verts_obj ned i_nedd d vg (sv, rl) = Some (sv', rl')"
  shows "(length (group_closest d ned i_nedd (verts_obj ! hd vg)) = 1 \<longrightarrow> sv' = sv \<and> rl' = rl)
    \<and> (length (group_closest d ned i_nedd (verts_obj ! hd vg)) \<noteq> 1 \<longrightarrow>
          set rl' = set rl \<union> set vg
        \<and> (\<forall>x. member_sets sv' x =
             (if x \<in> set vg
              then map_option (\<lambda>S. S \<union> {v \<in> set (group_closest d ned i_nedd (verts_obj ! hd vg)).
                                         v \<notin> set vg \<and> in_box (verts_obj ! hd vg) ned (verts_obj ! v)})
                     (member_sets sv x)
              else member_sets sv x)))
    \<and> (key \<in> set rl' \<and> wSum \<noteq> [0, 0, 0] \<longrightarrow>
          store_group rl' key g wSum st = (setdefault (fst st) key wSum, snd st))"
proof -
  let ?cg = "group_closest d ned i_nedd (verts_obj ! hd vg)"
  from assms obtain vertex rest where vg: "vg = vertex # rest"
    by (cases vg) (auto simp: edge_detection_group_def)
  have one: "sv' = sv \<and> rl' = rl" if "length ?cg = 1"
    using assms that by (auto simp: edge_detection_group_def vg Let_def split: if_splits)
  have other: "set rl' = set rl \<union> set vg \<and>
      (\<forall>x. member_sets sv' x =
             (if x \<in> set vg
              then map_option (\<lambda>S. S \<union> {v \<in> set ?cg. v \<notin> set vg \<and> in_box (verts_obj ! hd vg) ned (verts_obj ! v)})
                     (member_sets sv x)
              else member_sets sv x))" if ne: "length ?cg \<noteq> 1"
  proof -
    from assms ne have m: "foldM (merge_closest verts_obj ned (verts_obj ! hd vg) vg) ?cg sv = Some sv'"
      and r: "rl' = set_update rl vg"
      by (auto simp: edge_detection_group_def vg Let_def split: if_splits option.splits)
    show ?thesis
      using member_sets_merge_all [OF m] r by (simp add: set_set_update)
  qed
  have local: "store_group rl' key g wSum st = (setdefault (fst st) key wSum, snd st)"
    if "key \<in> set rl' \<and> wSum \<noteq> [0, 0, 0]"
    using that by (auto simp: store_group_def)
  show ?thesis
    using one other local by blast
qed

lemmas table_eval =
  pre_dictionary_def visit_polygon_def visit_vertex_def
  empty_data_def dict_extend_def setdefault_def dict_modify_def dict_keys_def set_add_def
  dict_set_add_def round_coords_def py_round_def pow10_def np_round_def upt_rec Let_def
  triangle_def

lemmas edge_eval =
  group_enclosed_def group_connected_faces_def checkEnclosedFacesVertex_def
  main_connected_points_def new_main_connect_def add_reverse_connections_def
  connection_count_def dict_pop_def dict_get_def dict_extend_def setdefault_def dict_modify_def
  dict_keys_def set_add_def set_update_def Let_def
  group_closest_def closest_group_search_def axis_coords_def py_round_def pow10_def np_round_def
  int_trunc_def in_box_def edge_detection_group_def merge_closest_def same_vertex_add_def

lemma precision_6: "precision (3 / 500) = Some 3"
proof -
  have "\<lfloor>log 10 (3 / 500 :: real)\<rfloor> = - 3"
    by (subst floor_log_eq_powr_iff) (simp_all add: powr_minus_divide)
  then show ?thesis
    by (simp add: precision_def)
qed

lemma precision_1: "precision (1 / 1000) = Some 3"
proof -
  have "\<lfloor>log 10 (1 / 1000 :: real)\<rfloor> = - 3"
    by (subst floor_log_eq_powr_iff) (simp_all add: powr_minus_divide)
  then show ?thesis
    by (simp add: precision_def)
qed

lemma ridge_pre_far:
  "pre_dictionary (ridge_mesh (31 / 2000, 11 / 2000, 11 / 2000)) (edge_props (3 / 500)) 2
   = Some (ridge_data (2 / 125, 3 / 500, 3 / 500) far_close)"
  by (simp add: ridge_mesh_def edge_props_def ridge_data_def far_close_def table_eval)

lemma ridge_same:
  "build_same_vertex (Pos_Same_Vertices (ridge_data k close)) = ridge_same_vertex"
  by (simp add: build_same_vertex_def ridge_data_def ridge_same_vertex_def setdefault_def dict_keys_def)

lemma ridge_open: "group_enclosed (ridge_data k close) ridge_same_vertex [0] = Some False"
  by (simp add: ridge_data_def ridge_same_vertex_def edge_eval over2_connected_points_def)

lemma ridge_closest_far:
  "group_closest (ridge_data k far_close) (3 / 500) 2 (1 / 100, 0, 0) = [4]"
  by (simp add: ridge_data_def far_close_def edge_eval)

lemma ridge_step_far:
  "edge_detection_group (vertices (ridge_mesh (31 / 2000, 11 / 2000, 11 / 2000))) (3 / 500) 2
     (ridge_data k far_close) [0] (ridge_same_vertex, []) = Some (ridge_same_vertex, [])"
  using ridge_open [of k] ridge_closest_far [of k]
  by (simp add: edge_detection_group_def ridge_mesh_def)

lemmas calc_eval =
  calculation_step_def group_normal_sum_def face_contribution_def weighted_normal_row_def
  store_group_def vadd_def vec_list_def dict_get_def setdefault_def dict_keys_def set_add_def

lemma fold_pre: "pre_dictionary fold_mesh plain_props 0 = Some fold_data"
  by (simp add: fold_mesh_def plain_props_def fold_data_def table_eval)

lemma fold_sum: "group_normal_sum plain_props fold_data [0, 3] [0, 1] = Some (0, 0, 0)"
  by (simp add: plain_props_def fold_data_def calc_eval)


lemma fold_same: "build_same_vertex (Pos_Same_Vertices fold_data) = fold_same_vertex"
  by (simp add: fold_data_def fold_same_vertex_def build_same_vertex_def setdefault_def dict_keys_def)

lemma fold_cf:
  "connected_faces_by_same_vertex fold_same_vertex (Connected_Faces fold_data)
   = Some [(0, [0, 1]), (3, [0, 1]), (1, [0, 1]), (2, [0, 1])]"
  by (simp add: fold_data_def fold_same_vertex_def connected_faces_by_same_vertex_def
      dict_set_update_def set_update_def set_add_def setdefault_def dict_keys_def dict_modify_def
      dict_get_def)

lemma fold_step0:
  "calculation_step plain_props fold_data [(0, [0, 1]), (3, [0, 1]), (1, [0, 1]), (2, [0, 1])] []
     (0, [0, 3]) ([], []) = Some ([], [])"
  using fold_sum
  by (simp add: calculation_step_def dict_get_def plain_props_def store_group_def
      unit_vector_def vec_list_def linalg_norm_def)

lemma fold_step3:
  "calculation_step plain_props fold_data [(0, [0, 1]), (3, [0, 1]), (1, [0, 1]), (2, [0, 1])] []
     (3, [0, 3]) ([], []) = Some ([], [])"
proof -
  have "group_normal_sum plain_props fold_data [0, 3] [0, 1] = Some (0, 0, 0)"
    by (rule fold_sum)
  then show ?thesis
    by (simp add: calculation_step_def dict_get_def plain_props_def store_group_def
      unit_vector_def vec_list_def linalg_norm_def)
qed

lemma fold_step_single:
  "calculation_step plain_props d cf rl (k, [v]) st = Some st"
  by (simp add: calculation_step_def plain_props_def)

lemma fold_result: "optimized_outline_generation fold_mesh plain_props = Some []"
proof -
  have e: "detect_edges plain_props = False"
    by (simp add: plain_props_def)
  have ne: "Pos_Same_Vertices fold_data \<noteq> []"
    by (simp add: fold_data_def)
  have run: "foldM (calculation_step plain_props fold_data
        [(0, [0, 1]), (3, [0, 1]), (1, [0, 1]), (2, [0, 1])] []) fold_same_vertex ([], []) = Some ([], [])"
    using fold_step0 fold_step3 by (simp add: fold_same_vertex_def fold_step_single)
  show ?thesis
    unfolding optimized_outline_generation_def
    using run fold_cf by (simp add: Let_def e ne fold_pre fold_same)
qed

theorem outline_overrides_unit_or_absent_witness:
  "optimized_outline_generation seam_mesh plain_props = Some [(0, [0, 0, 1]), (3, [0, 0, 1])]
   \<and> linalg_norm [0, 0, 1] = 1
   \<and> pre_dictionary fold_mesh plain_props 0 = Some fold_data
   \<and> group_normal_sum plain_props fold_data [0, 3] [0, 1] = Some (0, 0, 0)
   \<and> calculation_step plain_props fold_data [(0, [0, 1])] [] (0, [0, 3]) ([], []) = Some ([], [])
   \<and> optimized_outline_generation fold_mesh plain_props = Some []"
proof -
  have g: "dict_get [(0 :: nat, [0 :: nat, 1])] 0 = Some [0, 1]"
    by (simp add: dict_get_def)
  have "\<forall>kv\<in>set [(0 :: nat, [0 :: real, 0, 1]), (3, [0, 0, 1])]. linalg_norm (snd kv) = 1"
    using outline_overrides_unit_or_absent
      [where mesh = seam_mesh and props = plain_props
         and export_outline = "[(0, [0, 0, 1]), (3, [0, 0, 1])]"] seam_result
    by blast
  then have n: "linalg_norm [0, 0, 1] = 1"
    by simp
  have "calculation_step plain_props fold_data [(0, [0, 1])] [] (0, [0, 3]) ([], []) = Some ([], [])"
    using outline_overrides_unit_or_absent
      [where cfbsv = "[(0, [0, 1])]" and key = 0 and faces = "[0, 1]" and props = plain_props
         and d = fold_data and vg = "[0, 3]" and rl = "[]" and st = "([], [])"]
      g fold_sum
    by blast
  then show ?thesis
    using n seam_result fold_pre fold_sum fold_result by simp
qed

lemma thin_pre: "pre_dictionary thin_mesh plain_props 0 = Some thin_data"
  by (simp add: thin_mesh_def plain_props_def thin_data_def table_eval)

text \<open>
  Claim C6, evaluated on the code. In \<open>thin_mesh\<close> the vertices 0 and 1 round to the same
  position, so they form one group; face 0 has both of them among its corners, face 1
  only vertex 0. The accumulated sum is the plain sum \<open>(-1, 0, 1)\<close> of the two face
  normals: the row of face 0 is its normal \<open>(0, 0, 1)\<close>, not that normal scaled by
  \<open>0.5 ** (1 - 2)\<close>, which is \<open>(0, 0, 2)\<close>, because the product computed by
  \<open>numpy.multiply\<close> is dropped.
\<close>

theorem shared_face_weight_not_applied:
  "pre_dictionary thin_mesh plain_props 0 = Some thin_data
   \<and> dict_get (build_same_vertex (Pos_Same_Vertices thin_data)) 0 = Some [0, 1]
   \<and> group_normal_sum plain_props thin_data [0, 1] [0, 1] = Some (- 1, 0, 1)
   \<and> weighted_normal_row (0, 0, 1) 2 = (0, 0, 1)
   \<and> numpy_multiply (0, 0, 1) ((1 / 2) powi (1 - 2)) = (0, 0, 2)"
proof -
  have "group_normal_sum plain_props thin_data [0, 1] [0, 1] = Some (- 1, 0, 1)"
    by (simp add: plain_props_def thin_data_def calc_eval)
  moreover have "dict_get (build_same_vertex (Pos_Same_Vertices thin_data)) 0 = Some [0, 1]"
    by (simp add: thin_data_def build_same_vertex_def setdefault_def dict_keys_def dict_get_def)
  moreover have "weighted_normal_row (0, 0, 1) 2 = (0, 0, 1)"
    by (simp add: weighted_normal_row_def)
  moreover have "numpy_multiply (0, 0, 1) ((1 / 2) powi (1 - 2)) = (0, 0, 2)"
    by (simp add: numpy_multiply_def vscale_def power_int_def)
  ultimately show ?thesis
    using thin_pre by simp
qed

lemma ridge_pre_near:
  "pre_dictionary (ridge_mesh (53 / 5000, 0, 0)) (edge_props (1 / 1000)) 2
   = Some (ridge_data (11 / 1000, 0, 0) near_close)"
  by (simp add: ridge_mesh_def edge_props_def ridge_data_def near_close_def table_eval)

lemma ridge_closest_near:
  "group_closest (ridge_data k near_close) (1 / 1000) 2 (1 / 100, 0, 0) = [0, 4]"
  by (simp add: ridge_data_def near_close_def edge_eval)

lemma ridge_step_near:
  "edge_detection_group (vertices (ridge_mesh (53 / 5000, 0, 0))) (1 / 1000) 2
     (ridge_data k near_close) [0] (ridge_same_vertex, [])
   = Some ([(0, [0, 4]), (1, [1]), (2, [2]), (3, [3]), (4, [4]), (5, [5]), (6, [6])], [0])"
  using ridge_open [of k near_close] ridge_closest_near [of k]
  by (simp add: edge_detection_group_def ridge_mesh_def ridge_same_vertex_def
      merge_closest_def in_box_def same_vertex_add_def dict_get_def dict_modify_def set_add_def
      set_update_def)

theorem edge_detection_merges_and_marks_witness:
  "precision (1 / 1000) = Some 3
   \<and> pre_dictionary (ridge_mesh (53 / 5000, 0, 0)) (edge_props (1 / 1000)) 2
       = Some (ridge_data (11 / 1000, 0, 0) near_close)
   \<and> build_same_vertex (Pos_Same_Vertices (ridge_data (11 / 1000, 0, 0) near_close)) = ridge_same_vertex
   \<and> group_enclosed (ridge_data (11 / 1000, 0, 0) near_close) ridge_same_vertex [0] = Some False
   \<and> group_closest (ridge_data (11 / 1000, 0, 0) near_close) (1 / 1000) 2 (1 / 100, 0, 0) = [0, 4]
   \<and> edge_detection_group (vertices (ridge_mesh (53 / 5000, 0, 0))) (1 / 1000) 2
        (ridge_data (11 / 1000, 0, 0) near_close) [0] (ridge_same_vertex, [])
       = Some ([(0, [0, 4]), (1, [1]), (2, [2]), (3, [3]), (4, [4]), (5, [5]), (6, [6])], [0])
   \<and> member_sets [(0, [0, 4]), (1, [1]), (2, [2]), (3, [3]), (4, [4]), (5, [5]), (6, [6])] 0 = Some {0, 4}
   \<and> store_group [0] 0 [0, 4] [0, 0, 1] ([], []) = ([(0, [0, 0, 1])], [])"
proof -
  let ?d = "ridge_data (11 / 1000, 0, 0) near_close"
  let ?sv = "[(0, [0, 4]), (1, [1]), (2, [2]), (3, [3]), (4, [4]), (5, [5]), (6, [6])]"
  let ?vs = "vertices (ridge_mesh (53 / 5000, 0, 0))"
  note t = edge_detection_merges_and_marks
    [OF ridge_open [of "(11 / 1000, 0, 0)" near_close] ridge_step_near [of "(11 / 1000, 0, 0)"],
     of 0 "[0, 0, 1]" "[0, 4]" "([], [])"]
  have v0: "?vs ! 0 = (1 / 100, 0, 0)"
    by (simp add: ridge_mesh_def)
  have cg: "group_closest ?d (1 / 1000) 2 (1 / 100, 0, 0) = [0, 4]"
    by (rule ridge_closest_near)
  have box: "{v \<in> set [0 :: nat, 4]. v \<notin> set [0 :: nat] \<and> in_box (1 / 100, 0, 0) (1 / 1000) (?vs ! v)} = {4}"
    by (auto simp: ridge_mesh_def in_box_def)
  from t have "length (group_closest ?d (1 / 1000) 2 (?vs ! hd [0 :: nat])) \<noteq> 1 \<longrightarrow>
      (\<forall>x. member_sets ?sv x =
         (if x \<in> set [0 :: nat]
          then map_option (\<lambda>S. S \<union> {v \<in> set (group_closest ?d (1 / 1000) 2 (?vs ! hd [0 :: nat])).
                 v \<notin> set [0 :: nat] \<and> in_box (?vs ! hd [0 :: nat]) (1 / 1000) (?vs ! v)})
                 (member_sets ridge_same_vertex x)
          else member_sets ridge_same_vertex x))"
    by blast
  then have "member_sets ?sv 0 =
      map_option (\<lambda>S. S \<union> {v \<in> set [0 :: nat, 4]. v \<notin> set [0 :: nat]
          \<and> in_box (1 / 100, 0, 0) (1 / 1000) (?vs ! v)}) (member_sets ridge_same_vertex 0)"
    by (simp add: v0 cg)
  then have "member_sets ?sv 0 = Some {0, 4}"
    unfolding box by (simp add: member_sets_def ridge_same_vertex_def dict_get_def)
  moreover from t have "store_group [0] 0 [0, 4] [0, 0, 1] ([], []) = (setdefault (fst ([], [])) 0 [0, 0, 1], snd ([], []))"
    by simp
  then have "store_group [0] 0 [0, 4] [0, 0, 1] ([], []) = ([(0, [0, 0, 1])], [])"
    by (simp add: setdefault_def dict_keys_def)
  ultimately show ?thesis
    using precision_1 ridge_pre_near ridge_same ridge_open ridge_closest_near ridge_step_near
    by simp
qed

text \<open>
  The claim as worded fails where the search yields exactly one candidate. In
  \<open>ridge_mesh\<close> with a tolerance of 0.006 the group of vertex 0 is an open seam, the
  search yields vertex 4 alone, vertex 4 is outside the group and lies within the box, and
  yet nothing is merged: the Same_Vertex set of vertex 0 is still \<open>{0}\<close>.
\<close>

theorem edge_detection_single_candidate_counterexample:
  "precision (3 / 500) = Some 3
   \<and> pre_dictionary (ridge_mesh (31 / 2000, 11 / 2000, 11 / 2000)) (edge_props (3 / 500)) 2
       = Some (ridge_data (2 / 125, 3 / 500, 3 / 500) far_close)
   \<and> build_same_vertex (Pos_Same_Vertices (ridge_data (2 / 125, 3 / 500, 3 / 500) far_close))
       = ridge_same_vertex
   \<and> group_enclosed (ridge_data (2 / 125, 3 / 500, 3 / 500) far_close) ridge_same_vertex [0] = Some False
   \<and> group_closest (ridge_data (2 / 125, 3 / 500, 3 / 500) far_close) (3 / 500) 2 (1 / 100, 0, 0) = [4]
   \<and> in_box (1 / 100, 0, 0) (3 / 500) (31 / 2000, 11 / 2000, 11 / 2000)
   \<and> edge_detection_group (vertices (ridge_mesh (31 / 2000, 11 / 2000, 11 / 2000))) (3 / 500) 2
        (ridge_data (2 / 125, 3 / 500, 3 / 500) far_close) [0] (ridge_same_vertex, [])
       = Some (ridge_same_vertex, [])
   \<and> member_sets ridge_same_vertex 0 = Some {0}"
proof -
  have "in_box (1 / 100, 0, 0) (3 / 500) (31 / 2000, 11 / 2000, 11 / 2000)"
    by (simp add: in_box_def)
  moreover have "member_sets ridge_same_vertex 0 = Some {0}"
    by (simp add: member_sets_def ridge_same_vertex_def dict_get_def)
  ultimately show ?thesis
    using precision_6 ridge_pre_far ridge_same ridge_open ridge_closest_far ridge_step_far
    by simp
qed

section \<open>Outline optimization of the mod exporter\<close>

lemma same_but_tangent_refl: "same_but_tangent a a"
  by (simp add: same_but_tangent_def list_all2_refl)

lemma same_but_tangent_trans:
  "same_but_tangent a b \<Longrightarrow> same_but_tangent b c \<Longrightarrow> same_but_tangent a c"
  unfolding same_but_tangent_def
proof (erule list_all2_trans [rotated], assumption)
  fix v w x :: "'a PositionVertex_scheme"
  assume 1: "w\<lparr>TANGENT_xyz := TANGENT_xyz v\<rparr> = v" and 2: "x\<lparr>TANGENT_xyz := TANGENT_xyz w\<rparr> = w"
  have "x\<lparr>TANGENT_xyz := TANGENT_xyz v\<rparr> = (x\<lparr>TANGENT_xyz := TANGENT_xyz w\<rparr>)\<lparr>TANGENT_xyz := TANGENT_xyz v\<rparr>"
    by simp
  then show "x\<lparr>TANGENT_xyz := TANGENT_xyz v\<rparr> = v"
    using 1 2 by simp
qed

lemma same_but_tangent_map:
  "same_but_tangent a (map (\<lambda>v. v\<lparr>TANGENT_xyz := f v\<rparr>) a)"
  by (simp add: same_but_tangent_def list_all2_map2 list_all2_refl)

lemma write_group_frame:
  assumes "length position = length buf"
  shows "same_but_tangent buf (write_group nan position r buf)"
proof (cases "average_normal nan (map (NORMAL_xyz \<circ> snd) (filter (\<lambda>pv. fst pv = r) (zip position buf)))")
  case None
  then show ?thesis by (simp add: write_group_def same_but_tangent_refl)
next
  case (Some n)
  have "list_all2 (\<lambda>v w. w\<lparr>TANGENT_xyz := TANGENT_xyz v\<rparr> = v) buf
          (map (\<lambda>pv. if fst pv = r then (snd pv)\<lparr>TANGENT_xyz := n\<rparr> else snd pv) (zip position buf))"
    using assms
  proof (induction position buf rule: list_induct2)
    case Nil
    then show ?case by simp
  next
    case (Cons p ps v vs)
    then show ?case by simp
  qed
  then show ?thesis
    using Some by (simp add: write_group_def same_but_tangent_def)
qed

lemma same_but_tangent_length: "same_but_tangent a b \<Longrightarrow> length b = length a"
  by (simp add: same_but_tangent_def list_all2_lengthD)

lemma fold_write_group_frame:
  assumes "length position = length buf"
  shows "same_but_tangent buf (fold (write_group nan position) rs buf)"
  using assms
proof (induction rs arbitrary: buf)
  case Nil
  then show ?case by (simp add: same_but_tangent_refl)
next
  case (Cons r rs)
  have a: "same_but_tangent buf (write_group nan position r buf)"
    using Cons.prems by (rule write_group_frame)
  then have "length position = length (write_group nan position r buf)"
    using Cons.prems by (simp add: same_but_tangent_length)
  then have "same_but_tangent (write_group nan position r buf)
      (fold (write_group nan position) rs (write_group nan position r buf))"
    by (rule Cons.IH)
  with a show ?case
    by (auto intro: same_but_tangent_trans)
qed

lemma optimize_outlines_frame: "same_but_tangent buf (optimize_outlines nan en buf)"
proof -
  let ?pos = "map (\<lambda>v. map (\<lambda>x. np_round_decimals x 3) (POSITION v)) buf"
  let ?b1 = "map (\<lambda>v. v\<lparr>TANGENT_xyz := NORMAL_xyz v\<rparr>) buf"
  have 1: "same_but_tangent buf ?b1"
    by (rule same_but_tangent_map)
  have 2: "same_but_tangent ?b1 (fold (write_group nan ?pos) rs ?b1)" for rs
    by (rule fold_write_group_frame) simp
  show ?thesis
    using same_but_tangent_trans [OF 1 2]
    by (simp add: optimize_outlines_def Let_def same_but_tangent_refl)
qed

text \<open>
  Claim C10. \<open>optimize_outlines\<close> changes nothing but the first three components of the
  TANGENT field: the buffer keeps its length and the order of its elements, and POSITION,
  NORMAL, the remaining components of TANGENT and every other field of each element are
  the ones passed in. When outline optimization is disabled or the buffer is empty, the
  buffer is returned as it was.
\<close>

theorem optimize_outlines_changes_tangent_only:
  "length (optimize_outlines nan en buf) = length buf
   \<and> (\<forall>i<length buf.
        POSITION (optimize_outlines nan en buf ! i) = POSITION (buf ! i)
      \<and> NORMAL_xyz (optimize_outlines nan en buf ! i) = NORMAL_xyz (buf ! i)
      \<and> NORMAL_rest (optimize_outlines nan en buf ! i) = NORMAL_rest (buf ! i)
      \<and> TANGENT_rest (optimize_outlines nan en buf ! i) = TANGENT_rest (buf ! i)
      \<and> PositionVertex.more (optimize_outlines nan en buf ! i) = PositionVertex.more (buf ! i))
   \<and> (\<not> en \<or> length buf = 0 \<longrightarrow> optimize_outlines nan en buf = buf)"
proof (intro conjI allI impI)
  have f: "same_but_tangent buf (optimize_outlines nan en buf)"
    by (rule optimize_outlines_frame)
  then show len: "length (optimize_outlines nan en buf) = length buf"
    by (rule same_but_tangent_length)
  fix i assume i: "i < length buf"
  let ?w = "optimize_outlines nan en buf ! i"
  have e: "?w\<lparr>TANGENT_xyz := TANGENT_xyz (buf ! i)\<rparr> = buf ! i"
    using f i unfolding same_but_tangent_def by (rule list_all2_nthD)
  show "POSITION ?w = POSITION (buf ! i)"
    using arg_cong [OF e, of POSITION] by simp
  show "NORMAL_xyz ?w = NORMAL_xyz (buf ! i)"
    using arg_cong [OF e, of NORMAL_xyz] by simp
  show "NORMAL_rest ?w = NORMAL_rest (buf ! i)"
    using arg_cong [OF e, of NORMAL_rest] by simp
  show "TANGENT_rest ?w = TANGENT_rest (buf ! i)"
    using arg_cong [OF e, of TANGENT_rest] by simp
  show "PositionVertex.more ?w = PositionVertex.more (buf ! i)"
    using arg_cong [OF e, of PositionVertex.more] by simp
next
  assume "\<not> en \<or> length buf = 0"
  then show "optimize_outlines nan en buf = buf"
    by (auto simp: optimize_outlines_def)
qed

lemma seam_buffer_result:
  "optimize_outlines 0 True seam_buffer =
     [pv [0, 0, 0] (0, 0, 2) (0, 0, 1), pv [1, 0, 0] (0, 1, 0) (0, 1, 0),
      pv [1 / 10000, 0, 0] (0, 0, 0) (0, 0, 1)]"
proof -
  have pos: "map (\<lambda>v. map (\<lambda>x. np_round_decimals x 3) (POSITION v)) seam_buffer
      = [[0, 0, 0], [1, 0, 0], [0, 0, 0]]"
    by (simp add: seam_buffer_def pv_def np_round_decimals_def np_round_def)
  have u: "sort (remdups [[0 :: real, 0, 0], [1, 0, 0], [0, 0, 0]]) = [[0, 0, 0], [1, 0, 0]]"
    by simp
  have avg: "average_normal 0 [(0, 0, 2), (0, 0, 0)] = Some (0, 0, 1)"
    by (simp add: average_normal_def vnorm_def vec_list_def linalg_norm_def vscale_def vadd_def)
  show ?thesis
    unfolding optimize_outlines_def Let_def pos u
    using avg by (simp add: seam_buffer_def pv_def write_group_def)
qed

theorem optimize_outlines_changes_tangent_only_witness:
  "optimize_outlines 0 True seam_buffer =
     [pv [0, 0, 0] (0, 0, 2) (0, 0, 1), pv [1, 0, 0] (0, 1, 0) (0, 1, 0),
      pv [1 / 10000, 0, 0] (0, 0, 0) (0, 0, 1)]
   \<and> (2 :: nat) < length seam_buffer
   \<and> POSITION (optimize_outlines 0 True seam_buffer ! 2) = [1 / 10000, 0, 0]
   \<and> NORMAL_xyz (optimize_outlines 0 True seam_buffer ! 2) = (0, 0, 0)
   \<and> TANGENT_rest (optimize_outlines 0 True seam_buffer ! 2) = [1]
   \<and> optimize_outlines 0 False seam_buffer = seam_buffer
   \<and> optimize_outlines 0 True ([] :: PositionVertex list) = []"
proof -
  have l: "(2 :: nat) < length seam_buffer"
    by (simp add: seam_buffer_def)
  have b2: "seam_buffer ! 2 = pv [1 / 10000, 0, 0] (0, 0, 0) (1, 0, 0)"
    by (simp add: seam_buffer_def)
  from optimize_outlines_changes_tangent_only [of 0 True seam_buffer] l
  have "POSITION (optimize_outlines 0 True seam_buffer ! 2) = POSITION (seam_buffer ! 2)
      \<and> NORMAL_xyz (optimize_outlines 0 True seam_buffer ! 2) = NORMAL_xyz (seam_buffer ! 2)
      \<and> TANGENT_rest (optimize_outlines 0 True seam_buffer ! 2) = TANGENT_rest (seam_buffer ! 2)"
    by blast
  moreover from optimize_outlines_changes_tangent_only [of 0 False seam_buffer]
  have "optimize_outlines 0 False seam_buffer = seam_buffer"
    by blast
  moreover from optimize_outlines_changes_tangent_only [of 0 True "[] :: PositionVertex list"]
  have "optimize_outlines 0 True ([] :: PositionVertex list) = []"
    by simp
  ultimately show ?thesis
    using l seam_buffer_result by (simp add: b2 pv_def)
qed

lemmas assemble_eval =
  blender_to_migoto_vertices_def process_element_def element_result_def skipped_def
  translated_name_def position_element_def normal_element_def tangent_element_def
  outline_tangents_def flip_and_unorm_def ends_with_UNORM_def negate_def times2_minus1_def
  zero_field_def dict_modify_def dict_get_def startswith_def flip_sign_def scale_column0_def
  vec_list_def quantize_def layout_of_def element_def quad_mesh_def mloop_def triangle_def
  flags_def no_layers_def no_outline_def plain_props_def vertex_weights_def
  ensure_weights_np_def gather_rows_def Let_def

lemma quad_position:
  "blender_to_migoto_vertices False quad_mesh no_layers []
     (layout_of [element ''POSITION'' ''per-vertex'' FLOAT32 3]) OtherGame (flags fm fw) no_outline
   = Inr [(''POSITION'', Floats [[flip_sign fm * 1, 0, 0], [flip_sign fm * 2, 0, 0], [flip_sign fm * 1, 1, 0],
        [flip_sign fm * 1, 1, 0], [flip_sign fm * 2, 0, 0], [flip_sign fm * 2, 1, 0]])]"
  by (simp add: assemble_eval)

lemma blend_not_earlier:
  "startswith n ''BLENDWEIGHT'' \<or> startswith n ''BLENDINDICES''
   \<Longrightarrow> n \<noteq> ''POSITION'' \<and> n \<noteq> ''NORMAL'' \<and> \<not> startswith n ''TANGENT''"
  by (cases n) (auto simp: startswith_def)

lemma blend_element_fails:
  assumes "blend_channel L e"
  shows "process_element nw mesh layers None L game fm fn props e (None, mv) = Inl missing_weights"
proof -
  from assms have b: "startswith (translated_name L e) ''BLENDWEIGHT''
      \<or> startswith (translated_name L e) ''BLENDINDICES''" and s: "\<not> skipped e"
    by (auto simp: blend_channel_def)
  note ne = blend_not_earlier [OF b]
  from b show ?thesis
    using ne s by (auto simp: process_element_def element_result_def ensure_weights_np_def Let_def)
qed

lemma process_element_keeps_None:
  assumes "process_element nw mesh layers None L game fm fn props e (None, mv) = Inr st"
  shows "fst st = None"
  using assms
  by (auto simp: process_element_def element_result_def ensure_weights_np_def Let_def
      map_sum_def split: if_splits sum.splits)

lemma foldE_blend_fails:
  assumes "e \<in> set es" and "blend_channel L e"
  shows "\<exists>err. foldE (process_element nw mesh layers None L game fm fn props) es (None, mv) = Inl err"
  using assms(1)
proof (induction es arbitrary: mv)
  case Nil
  then show ?case by simp
next
  case (Cons x es)
  show ?case
  proof (cases "process_element nw mesh layers None L game fm fn props x (None, mv)")
    case (Inl err)
    then show ?thesis by simp
  next
    case (Inr st)
    then have n: "fst st = None"
      by (rule process_element_keeps_None)
    have "x \<noteq> e"
      using Inr blend_element_fails [OF assms(2), of nw mesh layers game fm fn props mv] by auto
    then have "e \<in> set es"
      using Cons.prems by simp
    then obtain err where "foldE (process_element nw mesh layers None L game fm fn props) es (None, snd st) = Inl err"
      using Cons.IH by blast
    then show ?thesis
      using Inr n by (cases st) auto
  qed
qed

lemma process_element_weights_irrelevant:
  assumes "\<not> blend_channel L e"
  shows "process_element nw mesh layers w1 L game fm fn props e st
       = process_element nw mesh layers w2 L game fm fn props e st"
  using assms
  by (auto simp: process_element_def element_result_def blend_channel_def Let_def)

lemma foldE_weights_irrelevant:
  assumes "\<forall>e\<in>set es. \<not> blend_channel L e"
  shows "foldE (process_element nw mesh layers w1 L game fm fn props) es st
       = foldE (process_element nw mesh layers w2 L game fm fn props) es st"
  using assms
proof (induction es arbitrary: st)
  case Nil
  then show ?case by simp
next
  case (Cons x es)
  then have "process_element nw mesh layers w1 L game fm fn props x st
       = process_element nw mesh layers w2 L game fm fn props x st"
    by (simp add: process_element_weights_irrelevant)
  then show ?case
    using Cons by (auto split: sum.splits)
qed

lemma element_result_layers:
  "layer_elements l1 = layer_elements l2 \<Longrightarrow>
   element_result nw mesh l1 w L game fm fn props e t = element_result nw mesh l2 w L game fm fn props e t"
  by (simp add: element_result_def Let_def)

lemma process_element_layers:
  "layer_elements l1 = layer_elements l2 \<Longrightarrow>
   process_element nw mesh l1 w L game fm fn props = process_element nw mesh l2 w L game fm fn props"
  by (intro ext) (simp add: process_element_def element_result_layers [of l1 l2])

text \<open>
  Claim C8, as the code has it. An element counts as a blend channel when it is exported
  (per-vertex, no reused offset) and its name, after the semantic remap, starts with
  BLENDWEIGHT or BLENDINDICES. Reaching such an element without a weight table and
  without deform weights raises the Fatal error; a mesh with polygons and no deform layer
  whose layout holds such an element never yields vertices; and for a layout without
  such an element the outcome does not depend on the deform layer at all.
\<close>

theorem blend_channels_need_weights:
  "(blend_channel L e
      \<longrightarrow> process_element nw mesh layers None L game fm fn props e (None, mv) = Inl missing_weights)
   \<and> (e \<in> set (elems L) \<and> blend_channel L e \<and> layer_deform layers = None \<and> polygons mesh \<noteq> []
      \<longrightarrow> (\<exists>err. blender_to_migoto_vertices nw mesh layers masked L game main_obj props = Inl err))
   \<and> ((\<forall>e\<in>set (elems L'). \<not> blend_channel L' e)
      \<longrightarrow> blender_to_migoto_vertices nw mesh (layers\<lparr>layer_deform := w\<rparr>) masked L' game main_obj props
        = blender_to_migoto_vertices nw mesh (layers\<lparr>layer_deform := None\<rparr>) masked L' game main_obj props)"
proof (intro conjI impI)
  assume "blend_channel L e"
  then show "process_element nw mesh layers None L game fm fn props e (None, mv) = Inl missing_weights"
    by (rule blend_element_fails)
next
  assume a: "e \<in> set (elems L) \<and> blend_channel L e \<and> layer_deform layers = None \<and> polygons mesh \<noteq> []"
  then have w: "vertex_weights layers masked = None"
    by (simp add: vertex_weights_def)
  obtain err where "foldE (process_element nw mesh layers None L game (FlipMesh main_obj)
        (FlipNormal main_obj) props) (elems L)
        (None, map (zero_field (length (loops mesh))) (filter (\<lambda>e. \<not> skipped e) (elems L))) = Inl err"
    using foldE_blend_fails a by blast
  then show "\<exists>err. blender_to_migoto_vertices nw mesh layers masked L game main_obj props = Inl err"
    using a by (simp add: blender_to_migoto_vertices_def w)
next
  assume a: "\<forall>e\<in>set (elems L'). \<not> blend_channel L' e"
  have p: "process_element nw mesh (layers\<lparr>layer_deform := w\<rparr>) x L' game fm fn props
         = process_element nw mesh (layers\<lparr>layer_deform := None\<rparr>) x L' game fm fn props" for x fm fn
    by (rule process_element_layers) simp
  have "foldE (process_element nw mesh (layers\<lparr>layer_deform := w\<rparr>)
           (vertex_weights (layers\<lparr>layer_deform := w\<rparr>) masked) L' game (FlipMesh main_obj)
           (FlipNormal main_obj) props) (elems L') st
      = foldE (process_element nw mesh (layers\<lparr>layer_deform := None\<rparr>)
           (vertex_weights (layers\<lparr>layer_deform := None\<rparr>) masked) L' game (FlipMesh main_obj)
           (FlipNormal main_obj) props) (elems L') st" for st
    unfolding p by (rule foldE_weights_irrelevant [OF a])
  then show "blender_to_migoto_vertices nw mesh (layers\<lparr>layer_deform := w\<rparr>) masked L' game main_obj props
        = blender_to_migoto_vertices nw mesh (layers\<lparr>layer_deform := None\<rparr>) masked L' game main_obj props"
    by (simp add: blender_to_migoto_vertices_def)
qed

lemmas bin_eval =
  mesh_to_bin_def loop_records_def record_at_def ib_vb_gen_def index_stream_def index_step_def
  fliplr_def tri_mesh_def dict_get_def





text \<open>
  A layout with a per-vertex BLENDWEIGHT element on a triangle without deform layer, and
  a layout with POSITION only.
\<close>

theorem blend_channels_need_weights_witness:
  "blend_channel (layout_of [element ''POSITION'' ''per-vertex'' FLOAT32 3,
                             element ''BLENDWEIGHT'' ''per-vertex'' FLOAT32 4])
       (element ''BLENDWEIGHT'' ''per-vertex'' FLOAT32 4)
   \<and> process_element False tri_mesh no_layers None
         (layout_of [element ''POSITION'' ''per-vertex'' FLOAT32 3,
                     element ''BLENDWEIGHT'' ''per-vertex'' FLOAT32 4])
         OtherGame False False no_outline (element ''BLENDWEIGHT'' ''per-vertex'' FLOAT32 4) (None, [])
       = Inl missing_weights
   \<and> (\<exists>err. blender_to_migoto_vertices False tri_mesh no_layers []
         (layout_of [element ''POSITION'' ''per-vertex'' FLOAT32 3,
                     element ''BLENDWEIGHT'' ''per-vertex'' FLOAT32 4])
         OtherGame (flags False False) no_outline = Inl err)
   \<and> blender_to_migoto_vertices False tri_mesh (no_layers\<lparr>layer_deform := Some [[(0, 1)], [(0, 1)], [(1, 1)]]\<rparr>) []
         (layout_of [element ''POSITION'' ''per-vertex'' FLOAT32 3]) OtherGame (flags False False) no_outline
       = blender_to_migoto_vertices False tri_mesh (no_layers\<lparr>layer_deform := None\<rparr>) []
         (layout_of [element ''POSITION'' ''per-vertex'' FLOAT32 3]) OtherGame (flags False False) no_outline"
proof -
  let ?bw = "element ''BLENDWEIGHT'' ''per-vertex'' FLOAT32 4"
  let ?Lb = "layout_of [element ''POSITION'' ''per-vertex'' FLOAT32 3, ?bw]"
  let ?Lp = "layout_of [element ''POSITION'' ''per-vertex'' FLOAT32 3]"
  have b: "blend_channel ?Lb ?bw"
    by (simp add: blend_channel_def skipped_def translated_name_def layout_of_def element_def
        dict_get_def startswith_def)
  have m: "?bw \<in> set (elems ?Lb)"
    by (simp add: layout_of_def)
  have d: "layer_deform no_layers = None"
    by (simp add: no_layers_def)
  have q: "polygons tri_mesh \<noteq> []"
    by (simp add: tri_mesh_def)
  have n: "\<forall>e\<in>set (elems ?Lp). \<not> blend_channel ?Lp e"
    by (simp add: blend_channel_def skipped_def translated_name_def layout_of_def element_def
        dict_get_def startswith_def)
  show ?thesis
    using blend_channels_need_weights [where L = ?Lb and e = ?bw and layers = no_layers
        and mesh = tri_mesh and L' = ?Lp and nw = False and game = OtherGame and fm = False
        and fn = False and props = no_outline and mv = "[]" and masked = "[]"
        and main_obj = "flags False False" and w = "Some [[(0, 1)], [(0, 1)], [(1, 1)]]"]
      b m d q n
    by blast
qed

text \<open>
  A layout that declares a BLENDWEIGHT element of class per-instance: the element is
  skipped, and the mesh with polygons and without weights is assembled.
\<close>

theorem per_instance_blend_counterexample:
  "layer_deform no_layers = None \<and> polygons tri_mesh \<noteq> []
   \<and> blender_to_migoto_vertices False tri_mesh no_layers []
        (layout_of [element ''POSITION'' ''per-vertex'' FLOAT32 3,
                    element ''BLENDWEIGHT'' ''per-instance'' FLOAT32 4])
        OtherGame (flags False False) no_outline
      = Inr [(''POSITION'', Floats [[1, 0, 0], [2, 0, 0], [1, 1, 0]])]"
  by (simp add: assemble_eval tri_mesh_def)

text \<open>
  Claim C4, evaluated on the code. For a UNORM element the bulk assembler computes
  \<open>result * 2 - 1\<close>: the normal \<open>(0, 0, 1)\<close> becomes \<open>(-1, -1, 1)\<close> and the tangent
  \<open>(1, 0, 0)\<close> becomes \<open>(1, -1, -1)\<close>, where \<open>normal_export_translation\<close> and the
  claim give \<open>x / 2 + 0.5\<close>, that is \<open>(0.5, 0.5, 1)\<close> and \<open>(1, 0.5, 0.5)\<close>.
\<close>

theorem unorm_remap_inverted:
  "normal_element tri_mesh False False (element ''NORMAL'' ''per-vertex'' UNORM8 3)
     = Inr (Floats [[- 1, - 1, 1], [- 1, - 1, 1], [- 1, - 1, 1]])
   \<and> map (normal_export_translation [Some UNORM8] False) [0, 0, 1] = [1 / 2, 1 / 2, 1]
   \<and> tangent_element tri_mesh no_outline OtherGame False False (element ''TANGENT'' ''per-vertex'' UNORM8 4)
     = Inr (Floats [[1, - 1, - 1, 1], [1, - 1, - 1, 1], [1, - 1, - 1, 1]])
   \<and> map (normal_export_translation [Some UNORM8] False) [1, 0, 0] = [1, 1 / 2, 1 / 2]
   \<and> blender_to_migoto_vertices False tri_mesh no_layers []
        (layout_of [element ''NORMAL'' ''per-vertex'' UNORM8 3]) OtherGame (flags False False) no_outline
      = Inr [(''NORMAL'', Ints [[1, 1, 255], [1, 1, 255], [1, 1, 255]])]"
proof (intro conjI)
  show "normal_element tri_mesh False False (element ''NORMAL'' ''per-vertex'' UNORM8 3)
     = Inr (Floats [[- 1, - 1, 1], [- 1, - 1, 1], [- 1, - 1, 1]])"
    by (simp add: assemble_eval tri_mesh_def)
  show "map (normal_export_translation [Some UNORM8] False) [0, 0, 1] = [1 / 2, 1 / 2, 1]"
    by (simp add: normal_export_translation_def)
  show "tangent_element tri_mesh no_outline OtherGame False False (element ''TANGENT'' ''per-vertex'' UNORM8 4)
     = Inr (Floats [[1, - 1, - 1, 1], [1, - 1, - 1, 1], [1, - 1, - 1, 1]])"
    by (simp add: assemble_eval tri_mesh_def)
  show "map (normal_export_translation [Some UNORM8] False) [1, 0, 0] = [1, 1 / 2, 1 / 2]"
    by (simp add: normal_export_translation_def)
  show "blender_to_migoto_vertices False tri_mesh no_layers []
        (layout_of [element ''NORMAL'' ''per-vertex'' UNORM8 3]) OtherGame (flags False False) no_outline
      = Inr [(''NORMAL'', Ints [[1, 1, 255], [1, 1, 255], [1, 1, 255]])]"
    by (simp add: assemble_eval tri_mesh_def round_scaled_def np_round_def astype_uint_def)
qed

lemma normal_export_translation_cases:
  "normal_export_translation [Some UNORM8] False x = x / 2 + 1 / 2
   \<and> normal_export_translation [Some UNORM16] True x = - x / 2 + 1 / 2
   \<and> normal_export_translation [Some FLOAT32] False x = x
   \<and> normal_export_translation [Some FLOAT32] True x = - x
   \<and> normal_export_translation [] True x = - x"
  by (simp add: normal_export_translation_def)

lemma flip_and_unorm_rows:
  "flip_and_unorm flip fmt rows
   = map (map (\<lambda>x. if ends_with_UNORM fmt then (if flip then - x else x) * 2 - 1
                    else if flip then - x else x)) rows"
  by (simp add: flip_and_unorm_def negate_def times2_minus1_def Let_def)






lemma quad_bin:
  "mesh_to_bin False quad_mesh no_layers [] (layout_of [element ''POSITION'' ''per-vertex'' FLOAT32 3])
     OtherGame (flags False False) no_outline
   = Inr ([[0, 1, 2], [2, 1, 2]], [[FloatRow [1, 0, 0]], [FloatRow [2, 0, 0]], [FloatRow [1, 1, 0]]])"
  unfolding mesh_to_bin_def quad_position
  by (simp add: bin_eval flip_sign_def flags_def quad_mesh_def mloop_def triangle_def)

text \<open>
  Claim C1, evaluated on the code. \<open>quad_mesh\<close> has four vertices and the six corners
  \<open>0, 1, 2, 2, 1, 3\<close>. The assembled records of the corners are the rows of
  \<open>migoto_verts\<close>; \<open>mesh_to_bin\<close> reads the row at \<open>l.vertex_index\<close> in place of the
  row of the corner, so the last corner, whose record holds the position \<open>(2, 1, 0)\<close>,
  gets the index of the record \<open>(1, 1, 0)\<close>, and no record of the vertex buffer holds
  \<open>(2, 1, 0)\<close>.
\<close>

theorem mesh_to_bin_indexes_by_vertex:
  "map_sum id (\<lambda>mv. map (record_at mv) [0, 1, 2, 3, 4, 5])
       (blender_to_migoto_vertices False quad_mesh no_layers []
          (layout_of [element ''POSITION'' ''per-vertex'' FLOAT32 3]) OtherGame (flags False False) no_outline)
     = Inr [Some [FloatRow [1, 0, 0]], Some [FloatRow [2, 0, 0]], Some [FloatRow [1, 1, 0]],
            Some [FloatRow [1, 1, 0]], Some [FloatRow [2, 0, 0]], Some [FloatRow [2, 1, 0]]]
   \<and> mesh_to_bin False quad_mesh no_layers [] (layout_of [element ''POSITION'' ''per-vertex'' FLOAT32 3])
       OtherGame (flags False False) no_outline
     = Inr ([[0, 1, 2], [2, 1, 2]], [[FloatRow [1, 0, 0]], [FloatRow [2, 0, 0]], [FloatRow [1, 1, 0]]])"
  unfolding quad_bin quad_position
  by (simp add: record_at_def flip_sign_def)

lemma indexed_lookup:
  assumes "indexed d" and "map_of d k = Some i"
  shows "i < length d \<and> map fst d ! i = k"
proof -
  from assms(2) have "(k, i) \<in> set d"
    by (rule map_of_SomeD)
  then obtain j where j: "j < length d" "d ! j = (k, i)"
    by (auto simp: in_set_conv_nth)
  from assms(1) have "map snd d ! j = [0..<length d] ! j"
    by (simp add: indexed_def)
  with j have "i = j"
    by simp
  with j show ?thesis
    by simp
qed

lemma index_step_indexed:
  assumes "indexed d"
  shows "\<exists>i. index_step k (d, out) = (if k \<in> set (map fst d) then d else d @ [(k, length d)], out @ [i])
           \<and> i < length (if k \<in> set (map fst d) then d else d @ [(k, length d)])
           \<and> map fst (if k \<in> set (map fst d) then d else d @ [(k, length d)]) ! i = k"
proof (cases "map_of d k")
  case None
  then have "k \<notin> set (map fst d)"
    by (simp add: map_of_eq_None_iff)
  then show ?thesis
    using None by (simp add: index_step_def dict_get_def nth_append)
next
  case (Some i)
  then have "k \<in> set (map fst d)"
    by (metis map_of_eq_None_iff option.distinct(1) set_map)
  then show ?thesis
    using Some indexed_lookup [OF assms Some] by (simp add: index_step_def dict_get_def)
qed

lemma indexed_step:
  "indexed d \<Longrightarrow> indexed (if k \<in> set (map fst d) then d else d @ [(k, length d)])"
  by (simp add: indexed_def)

lemma fold_index_step:
  assumes "indexed d"
  shows "\<exists>d' is. fold index_step ks (d, out) = (d', out @ is)
           \<and> indexed d'
           \<and> map fst d' = set_update (map fst d) ks
           \<and> (\<exists>suffix. d' = d @ suffix)
           \<and> (\<forall>i\<in>set is. i < length d')
           \<and> map ((!) (map fst d')) is = ks"
  using assms
proof (induction ks arbitrary: d out)
  case Nil
  then show ?case
    by (simp add: set_update_def)
next
  case (Cons k ks)
  let ?d1 = "if k \<in> set (map fst d) then d else d @ [(k, length d)]"
  from index_step_indexed [OF Cons.prems, of k out]
  obtain i where s: "index_step k (d, out) = (?d1, out @ [i])"
    and i: "i < length ?d1" "map fst ?d1 ! i = k"
    by blast
  have w1: "indexed ?d1"
    using Cons.prems by (rule indexed_step)
  from Cons.IH [OF w1, of "out @ [i]"]
  obtain d' "is" suffix where f: "fold index_step ks (?d1, out @ [i]) = (d', (out @ [i]) @ is)"
    and w: "indexed d'"
    and u: "map fst d' = set_update (map fst ?d1) ks"
    and p: "d' = ?d1 @ suffix"
    and b: "\<forall>i\<in>set is. i < length d'"
    and m: "map ((!) (map fst d')) is = ks"
    by blast
  have k: "map fst d' ! i = k"
    using i p by (simp add: nth_append)
  have 1: "fold index_step (k # ks) (d, out) = (d', out @ (i # is))"
    using s f by simp
  have 2: "map fst d' = set_update (map fst d) (k # ks)"
    using u by (simp add: set_update_def set_add_def)
  have 3: "\<exists>suffix. d' = d @ suffix"
    using p by (cases "k \<in> set (map fst d)") auto
  have 4: "\<forall>j\<in>set (i # is). j < length d'"
    using b i p by auto
  have 5: "map ((!) (map fst d')) (i # is) = k # ks"
    using m k by simp
  show ?case
    by (rule exI [of _ d'], rule exI [of _ "i # is"]) (intro conjI 1 2 3 4 5 w)
qed

lemma fold_export_face:
  assumes "indexed d"
  shows "\<exists>d' new. fold (export_face vertex_of flip) polys (d, faces) = (d', faces @ new)
           \<and> indexed d'
           \<and> map fst d' = set_update (map fst d) (concat (map (map vertex_of) polys))
           \<and> (\<exists>suffix. d' = d @ suffix)
           \<and> (\<forall>f\<in>set new. \<forall>i\<in>set f. i < length d')
           \<and> map (map ((!) (map fst d'))) new
             = map (\<lambda>p. if flip then rev (map vertex_of p) else map vertex_of p) polys"
  using assms
proof (induction polys arbitrary: d faces)
  case Nil
  then show ?case
    by (simp add: set_update_def)
next
  case (Cons p polys)
  from fold_index_step [OF Cons.prems, of "map vertex_of p" "[]"]
  obtain d1 "is" suffix1 where f1: "fold index_step (map vertex_of p) (d, []) = (d1, is)"
    and w1: "indexed d1"
    and u1: "map fst d1 = set_update (map fst d) (map vertex_of p)"
    and p1: "d1 = d @ suffix1"
    and b1: "\<forall>i\<in>set is. i < length d1"
    and m1: "map ((!) (map fst d1)) is = map vertex_of p"
    by auto
  let ?face = "if flip then rev is else is"
  have e: "export_face vertex_of flip p (d, faces) = (d1, faces @ [?face])"
    using f1 by (simp add: export_face_def)
  from Cons.IH [OF w1, of "faces @ [?face]"]
  obtain d' new suffix where f: "fold (export_face vertex_of flip) polys (d1, faces @ [?face])
        = (d', (faces @ [?face]) @ new)"
    and w: "indexed d'"
    and u: "map fst d' = set_update (map fst d1) (concat (map (map vertex_of) polys))"
    and p': "d' = d1 @ suffix"
    and b: "\<forall>f\<in>set new. \<forall>i\<in>set f. i < length d'"
    and m: "map (map ((!) (map fst d'))) new
             = map (\<lambda>p. if flip then rev (map vertex_of p) else map vertex_of p) polys"
    by blast
  have same: "map ((!) (map fst d')) is = map ((!) (map fst d1)) is"
    using b1 p' by (simp add: nth_append)
  have face: "map ((!) (map fst d')) ?face = (if flip then rev (map vertex_of p) else map vertex_of p)"
    using same m1 by (simp add: rev_map [symmetric])
  have 1: "fold (export_face vertex_of flip) (p # polys) (d, faces) = (d', faces @ (?face # new))"
    using e f by simp
  have 2: "map fst d' = set_update (map fst d) (concat (map (map vertex_of) (p # polys)))"
    using u u1 by (simp add: set_update_def)
  have 3: "\<exists>suffix. d' = d @ suffix"
    using p1 p' by simp
  have 4: "\<forall>f\<in>set (?face # new). \<forall>i\<in>set f. i < length d'"
    using b b1 p' by auto
  have 5: "map (map ((!) (map fst d'))) (?face # new)
      = map (\<lambda>p. if flip then rev (map vertex_of p) else map vertex_of p) (p # polys)"
    using m face by simp
  show ?case
    by (rule exI [of _ d'], rule exI [of _ "?face # new"]) (intro conjI 1 2 3 4 5 w)
qed

lemma export_3dmigoto_dedup:
  assumes "export_3dmigoto_buffers vertex_of flip polys = (ib, vb)"
  shows "map (map ((!) vb)) ib = map (\<lambda>p. if flip then rev (map vertex_of p) else map vertex_of p) polys"
    and "\<forall>f\<in>set ib. \<forall>i\<in>set f. i < length vb"
    and "distinct vb"
    and "vb = set_update [] (concat (map (map vertex_of) polys))"
proof -
  have "indexed []"
    by (simp add: indexed_def)
  from fold_export_face [OF this, of vertex_of flip polys "[]"]
  obtain d' new where f: "fold (export_face vertex_of flip) polys ([], []) = (d', new)"
    and w: "indexed d'"
    and u: "map fst d' = set_update [] (concat (map (map vertex_of) polys))"
    and b: "\<forall>f\<in>set new. \<forall>i\<in>set f. i < length d'"
    and m: "map (map ((!) (map fst d'))) new
             = map (\<lambda>p. if flip then rev (map vertex_of p) else map vertex_of p) polys"
    by auto
  from assms f have r: "ib = new" "vb = map fst d'"
    by (simp_all add: export_3dmigoto_buffers_def)
  show "map (map ((!) vb)) ib = map (\<lambda>p. if flip then rev (map vertex_of p) else map vertex_of p) polys"
    using m r by simp
  show "\<forall>f\<in>set ib. \<forall>i\<in>set f. i < length vb"
    using b r by simp
  show "distinct vb"
    using w r by (simp add: indexed_def)
  show "vb = set_update [] (concat (map (map vertex_of) polys))"
    using u r by simp
qed

end
